theory Spec2Isabelle
  imports Main "HOL-Library.Multiset"
begin

section \<open>MapsService of the mind-map backend: a shallow embedding\<close>

text \<open>
  The service is a class whose methods talk to two TypeORM repositories (nodes and maps),
  a logger, and \<^verbatim>\<open>Date\<close> objects. Every \<^verbatim>\<open>async\<close> method returns a promise;
  a promise that settles is modelled by its outcome: \<open>Inr v\<close> when it resolves with \<open>v\<close>,
  \<open>Inl e\<close> when it rejects with \<open>e\<close>. The storage, the logger and the bookkeeping of
  promises nobody handles are threaded through as an explicit state.
\<close>

subsection \<open>Outcomes of promises\<close>

text \<open>
  \<open>Rejected\<close> is \<^verbatim>\<open>Promise.reject()\<close>: a rejection that carries no reason.
  \<open>MalformedUUIDError\<close> is the error class of that name with its message.
  \<open>TypeError\<close> is what reading a property of \<^verbatim>\<open>null\<close> or \<^verbatim>\<open>undefined\<close> throws;
  inside an \<^verbatim>\<open>async\<close> function it rejects the promise the function returns.
  \<open>QueryFailedError\<close> is what the repository rejects with when the database refuses a
  statement: an identifier that is not valid input for a \<^verbatim>\<open>uuid\<close> column, or a row
  that violates a foreign key.
\<close>

datatype error = Rejected | MalformedUUIDError string | TypeError | QueryFailedError

subsection \<open>Entities\<close>

text \<open>
  Modelled from the spec: the entity declarations \<^verbatim>\<open>MmpNode\<close> and \<^verbatim>\<open>MmpMap\<close> are
  imported by the service from files that are not at hand. The spec gives the persisted shape
  \<^verbatim>\<open>Node{id, nodeMapId, nodeParentId?, root, detached, orderNumber, lastModified, content}\<close>
  and \<^verbatim>\<open>Map{id, lastModified, ...}\<close>. Identifiers are strings, the optional parent
  reference is \<open>None\<close> when it is \<^verbatim>\<open>null\<close> or \<^verbatim>\<open>undefined\<close>, and a time stamp is
  the number of milliseconds since the epoch. Content columns that no operation reads are left
  out; the operations below copy a node as a whole, so they would be carried along unchanged.
\<close>

record mmpNode =
  id_node :: string
  nodeMapId :: string
  nodeParentId :: "string option"
  root :: bool
  detached :: bool
  orderNumber :: int
  lastModified_node :: int

record mmpMap =
  id_map :: string
  lastModified_map :: int

text \<open>
  The client's map: \<^verbatim>\<open>uuid\<close> and \<^verbatim>\<open>data\<close>, the list of client nodes. The type of a
  client node (\<^verbatim>\<open>IMmpClientNode\<close>) is declared elsewhere and stays a type parameter.
\<close>

record 'c mmpClientMap =
  uuid :: string
  data :: "'c list"

subsection \<open>Time zones\<close>

text \<open>
  A time zone (of the process, or of the database session) is a parameter: \<open>offsetOfUTC\<close> gives the offset of local
  time in force at an instant, \<open>offsetOfLocal\<close> the offset by which a local time is read
  back as an instant (the two differ around a change of the clocks).
\<close>

record timezone =
  offsetOfUTC :: "int \<Rightarrow> int"
  offsetOfLocal :: "int \<Rightarrow> int"

subsection \<open>The state the service works on\<close>

text \<open>
  \<open>ParentDoesNotExist p n m\<close> is the warning
  \<^verbatim>\<open>Parent with id ${p} does not exist for node ${n} and map ${m}\<close>,
  kept as its three interpolated values.
\<close>

datatype warning = ParentDoesNotExist "string option" string string

text \<open>
  \<open>nodesRepository\<close> and \<open>mapsRepository\<close> are the rows of the two tables in insertion
  order, \<open>logger\<close> the warnings written so far, \<open>dbAccesses\<close> the number of queries sent to
  the storage, and \<open>unhandledRejections\<close> the number of rejected promises that were created
  and dropped without a handler. Two properties of the database are parameters carried with
  the state: \<open>uuid_in\<close> reads the text of an identifier as a value of the \<^verbatim>\<open>uuid\<close>
  column type (\<open>None\<close> when the text is not valid input; two texts denote the same
  identifier when they are read as the same value), and \<open>sessionTimeZone\<close> is the time
  zone in which the database does its date arithmetic.
\<close>

record store =
  nodesRepository :: "mmpNode list"
  mapsRepository :: "mmpMap list"
  logger :: "warning list"
  dbAccesses :: nat
  unhandledRejections :: nat
  uuid_in :: "string \<Rightarrow> string option"
  sessionTimeZone :: timezone

text \<open>
  JavaScript truthiness of an identifier: the empty string is falsy, and so are
  \<^verbatim>\<open>null\<close> and \<^verbatim>\<open>undefined\<close>. A parameter typed \<^verbatim>\<open>string\<close> is a \<open>string\<close> here,
  so a missing identifier is the empty one.
\<close>

text \<open>Two texts that the \<^verbatim>\<open>uuid\<close> column reads as the same identifier.\<close>

definition same_uuid :: "store \<Rightarrow> string \<Rightarrow> string \<Rightarrow> bool" where
  "same_uuid s a b = (uuid_in s a \<noteq> None \<and> uuid_in s a = uuid_in s b)"

definition truthy :: "string \<Rightarrow> bool" where
  "truthy x = (x \<noteq> [])"

definition truthy_opt :: "string option \<Rightarrow> bool" where
  "truthy_opt x = (case x of None \<Rightarrow> False | Some y \<Rightarrow> truthy y)"

subsection \<open>Repository operations (TypeORM)\<close>

definition accessed :: "store \<Rightarrow> store" where
  "accessed s = s\<lparr>dbAccesses := Suc (dbAccesses s)\<rparr>"

text \<open>\<^verbatim>\<open>nodesRepository.findOne({ where: { id, nodeMapId } })\<close>: the first matching row or null.\<close>

definition nodes_findOne :: "string \<Rightarrow> string \<Rightarrow> store \<Rightarrow> mmpNode option \<times> store" where
  "nodes_findOne i m s =
     (find (\<lambda>n. id_node n = i \<and> nodeMapId n = m) (nodesRepository s), accessed s)"

text \<open>\<^verbatim>\<open>nodesRepository.exist({ where: { id, nodeMapId } })\<close>.\<close>

definition nodes_exist :: "string \<Rightarrow> string \<Rightarrow> store \<Rightarrow> bool \<times> store" where
  "nodes_exist i m s =
     (list_ex (\<lambda>n. id_node n = i \<and> nodeMapId n = m) (nodesRepository s), accessed s)"

text \<open>
  \<^verbatim>\<open>nodesRepository.save(entity)\<close>: the row with the entity's primary key, the pair of
  \<^verbatim>\<open>id\<close> and \<^verbatim>\<open>nodeMapId\<close>, is overwritten when there is one; otherwise the entity is
  inserted as a new row. The saved entity is returned. Modelled from the spec: a node is owned
  by its map through a foreign key (deleting a map cascades to its nodes), so the database
  refuses to insert a node whose \<^verbatim>\<open>nodeMapId\<close> is not the identifier of a stored map.
\<close>

definition same_key :: "mmpNode \<Rightarrow> mmpNode \<Rightarrow> bool" where
  "same_key a b = (id_node a = id_node b \<and> nodeMapId a = nodeMapId b)"

definition mapStored :: "store \<Rightarrow> string \<Rightarrow> bool" where
  "mapStored s mapId = list_ex (\<lambda>m. same_uuid s (id_map m) mapId) (mapsRepository s)"

definition nodes_save :: "mmpNode \<Rightarrow> store \<Rightarrow> (error + mmpNode) \<times> store" where
  "nodes_save n s =
     (if list_ex (same_key n) (nodesRepository s)
      then (Inr n, accessed (s\<lparr>nodesRepository :=
                     map (\<lambda>r. if same_key n r then n else r) (nodesRepository s)\<rparr>))
      else if mapStored s (nodeMapId n)
      then (Inr n, accessed (s\<lparr>nodesRepository := nodesRepository s @ [n]\<rparr>))
      else (Inl QueryFailedError, accessed s))"

text \<open>
  \<^verbatim>\<open>nodesRepository.delete({ nodeMapId })\<close>: every row of that map goes. The database
  refuses the statement when the text is not valid input for the \<^verbatim>\<open>uuid\<close> column.
\<close>

definition nodes_delete :: "string \<Rightarrow> store \<Rightarrow> (error + unit) \<times> store" where
  "nodes_delete m s =
     (case uuid_in s m of
        None \<Rightarrow> (Inl QueryFailedError, accessed s)
      | Some v \<Rightarrow>
          (Inr (), accessed (s\<lparr>nodesRepository :=
                      filter (\<lambda>n. uuid_in s (nodeMapId n) \<noteq> Some v) (nodesRepository s)\<rparr>)))"

text \<open>
  \<^verbatim>\<open>mapsRepository.findOne({ where: { id } })\<close>: the column compares identifiers as
  values, and the database refuses a text that is not valid input for it.
\<close>

definition maps_findOne :: "string \<Rightarrow> store \<Rightarrow> (error + mmpMap option) \<times> store" where
  "maps_findOne u s =
     (case uuid_in s u of
        None \<Rightarrow> (Inl QueryFailedError, accessed s)
      | Some v \<Rightarrow> (Inr (find (\<lambda>m. uuid_in s (id_map m) = Some v) (mapsRepository s)), accessed s))"

subsection \<open>findMap, findNodes, existsNode\<close>

text \<open>
  \<open>uuidValidate\<close> is \<^verbatim>\<open>validate\<close> of the \<^verbatim>\<open>uuid\<close> package, a parameter of the model.
  A string it refuses is rejected before the repository is touched.
\<close>

definition findMap :: "(string \<Rightarrow> bool) \<Rightarrow> string \<Rightarrow> store \<Rightarrow> (error + mmpMap option) \<times> store" where
  "findMap uuidValidate u s =
     (if \<not> uuidValidate u then (Inl (MalformedUUIDError ''Invalid UUID''), s)
      else maps_findOne u s)"

text \<open>
  The query \<^verbatim>\<open>where nodeMapId = :mapId order by orderNumber ASC\<close>. SQL leaves the order
  of rows with equal \<^verbatim>\<open>orderNumber\<close> open; the model keeps them in table order.
\<close>

definition findNodes :: "string \<Rightarrow> store \<Rightarrow> (error + mmpNode list) \<times> store" where
  "findNodes mapId s =
     (Inr (sort_key orderNumber (filter (\<lambda>n. nodeMapId n = mapId) (nodesRepository s))),
      accessed s)"

definition existsNode :: "string \<Rightarrow> string \<Rightarrow> store \<Rightarrow> (error + bool) \<times> store" where
  "existsNode mapId parentId s =
     (if \<not> truthy mapId \<or> \<not> truthy parentId then (Inr False, s)
      else (case nodes_exist parentId mapId s of (b, s') \<Rightarrow> (Inr b, s')))"

subsection \<open>validatesNodeParentForNode\<close>

text \<open>
  \<^verbatim>\<open>node.root || node.detached || (!!node.nodeParentId && (await this.existsNode(...)))\<close>:
  the operands are looked at from left to right and the storage is only asked when the first
  two are false and the parent reference is truthy.
\<close>

definition validatesNodeParentForNode :: "string \<Rightarrow> mmpNode \<Rightarrow> store \<Rightarrow> (error + bool) \<times> store" where
  "validatesNodeParentForNode mapId node s =
     (if root node then (Inr True, s)
      else if detached node then (Inr True, s)
      else (case nodeParentId node of
              None \<Rightarrow> (Inr False, s)
            | Some p \<Rightarrow> if \<not> truthy p then (Inr False, s) else existsNode mapId p s))"

subsection \<open>addNode\<close>

text \<open>
  The node argument is \<open>None\<close> when the caller passes \<^verbatim>\<open>null\<close> or \<^verbatim>\<open>undefined\<close>.
  The first guard reads \<^verbatim>\<open>node.detached\<close>, which throws for such an argument before the
  second guard is reached.
\<close>

definition addNode :: "string \<Rightarrow> mmpNode option \<Rightarrow> store \<Rightarrow> (error + mmpNode) \<times> store" where
  "addNode mapId nodeArg s =
     (case nodeArg of
        None \<Rightarrow> (Inl TypeError, s)
      | Some node \<Rightarrow>
          if detached node \<and> truthy_opt (nodeParentId node) then (Inl Rejected, s)
          else if \<not> truthy mapId then (Inl Rejected, s)
          else (case nodes_findOne (id_node node) mapId s of
                  (Some existingNode, s1) \<Rightarrow> (Inr existingNode, s1)
                | (None, s1) \<Rightarrow> nodes_save (node\<lparr>nodeMapId := mapId\<rparr>) s1))"

subsection \<open>addNodes and addNodesFromClient\<close>

text \<open>
  One step of the \<^verbatim>\<open>reduce\<close>: wait for the promise of the nodes before; when it has
  rejected, so does this one and the node is not looked at. Otherwise validate the node, and
  either append what \<open>addNode\<close> resolves with or write the warning.
\<close>

definition reducer ::
  "string \<Rightarrow> (error + mmpNode list) \<times> store \<Rightarrow> mmpNode \<Rightarrow> (error + mmpNode list) \<times> store" where
  "reducer mapId previousPromise node =
     (case previousPromise of
        (Inl e, s) \<Rightarrow> (Inl e, s)
      | (Inr accCreatedNodes, s) \<Rightarrow>
          (case validatesNodeParentForNode mapId node s of
             (Inl e, s1) \<Rightarrow> (Inl e, s1)
           | (Inr True, s1) \<Rightarrow>
               (case addNode mapId (Some node) s1 of
                  (Inl e, s2) \<Rightarrow> (Inl e, s2)
                | (Inr created, s2) \<Rightarrow> (Inr (accCreatedNodes @ [created]), s2))
           | (Inr False, s1) \<Rightarrow>
               (Inr accCreatedNodes,
                s1\<lparr>logger := logger s1 @ [ParentDoesNotExist (nodeParentId node) (id_node node) mapId]\<rparr>)))"

text \<open>
  The guard of \<open>addNodes\<close> calls \<^verbatim>\<open>Promise.reject()\<close> and drops the promise: nothing is
  returned there, and the reduction runs all the same.
\<close>

definition addNodes :: "string \<Rightarrow> mmpNode list \<Rightarrow> store \<Rightarrow> (error + mmpNode list) \<times> store" where
  "addNodes mapId nodes s =
     foldl (reducer mapId)
       (Inr [],
        if \<not> truthy mapId \<or> length nodes = 0
        then s\<lparr>unhandledRejections := Suc (unhandledRejections s)\<rparr> else s)
       nodes"

text \<open>
  \<open>mapClientNodeToMmpNode\<close> is imported from the client-server mapping utilities and is a
  parameter here.
\<close>

definition addNodesFromClient ::
  "('c \<Rightarrow> string \<Rightarrow> mmpNode) \<Rightarrow> string \<Rightarrow> 'c list \<Rightarrow> store \<Rightarrow> (error + mmpNode list) \<times> store" where
  "addNodesFromClient mapClientNodeToMmpNode mapId clientNodes s =
     addNodes mapId (map (\<lambda>x. mapClientNodeToMmpNode x mapId) clientNodes) s"

subsection \<open>updateMap\<close>

definition updateMap ::
  "(string \<Rightarrow> bool) \<Rightarrow> ('c \<Rightarrow> string \<Rightarrow> mmpNode) \<Rightarrow> 'c mmpClientMap \<Rightarrow> store
     \<Rightarrow> (error + mmpMap option) \<times> store" where
  "updateMap uuidValidate mapClientNodeToMmpNode clientMap s =
     (case nodes_delete (uuid clientMap) s of
        (Inl e, s1) \<Rightarrow> (Inl e, s1)
      | (Inr deleted, s1) \<Rightarrow>
          (case addNodesFromClient mapClientNodeToMmpNode (uuid clientMap) (data clientMap) s1 of
             (Inl e, s2) \<Rightarrow> (Inl e, s2)
           | (Inr created, s2) \<Rightarrow> findMap uuidValidate (uuid clientMap) s2))"

subsection \<open>Date objects (ECMA-262, Date)\<close>

text \<open>
  A \<^verbatim>\<open>Date\<close> holds a time value: a whole number of milliseconds since the epoch of at
  most \<open>8.64 * 10^15\<close> in magnitude, or \<^verbatim>\<open>NaN\<close> (an invalid date), which is \<open>None\<close>
  here. All numbers the service computes with are whole and below \<open>2^53\<close> wherever the
  result is a valid date, so \<open>int\<close> arithmetic is the arithmetic of the doubles.
  The day-number functions are the ones of the language definition.
\<close>

type_synonym time_value = "int option"

definition msPerDay :: int where
  "msPerDay = 86400000"

definition TimeClip :: "int \<Rightarrow> time_value" where
  "TimeClip t = (if \<bar>t\<bar> > 8640000000000000 then None else Some t)"

definition Day :: "int \<Rightarrow> int" where
  "Day t = t div msPerDay"

definition TimeWithinDay :: "int \<Rightarrow> int" where
  "TimeWithinDay t = t mod msPerDay"

definition DaysInYear :: "int \<Rightarrow> int" where
  "DaysInYear y =
     (if y mod 4 \<noteq> 0 then 365 else if y mod 100 \<noteq> 0 then 366
      else if y mod 400 \<noteq> 0 then 365 else 366)"

definition DayFromYear :: "int \<Rightarrow> int" where
  "DayFromYear y =
     365 * (y - 1970) + (y - 1969) div 4 - (y - 1901) div 100 + (y - 1601) div 400"

text \<open>
  The largest year whose first day is not after \<open>t\<close>: estimated from the mean length of a
  year, then corrected by at most one year either way.
\<close>

definition YearFromTime :: "int \<Rightarrow> int" where
  "YearFromTime t =
     (let d = Day t; y = 1970 + (400 * d) div 146097
      in if DayFromYear (y + 1) \<le> d then y + 1
         else if DayFromYear y \<le> d then y else y - 1)"

definition DayWithinYear :: "int \<Rightarrow> int" where
  "DayWithinYear t = Day t - DayFromYear (YearFromTime t)"

definition InLeapYear :: "int \<Rightarrow> int" where
  "InLeapYear t = (if DaysInYear (YearFromTime t) = 366 then 1 else 0)"

definition MonthFromTime :: "int \<Rightarrow> int" where
  "MonthFromTime t =
     (let d = DayWithinYear t; l = InLeapYear t
      in if d < 31 then 0
         else if d < 59 + l then 1
         else if d < 90 + l then 2
         else if d < 120 + l then 3
         else if d < 151 + l then 4
         else if d < 181 + l then 5
         else if d < 212 + l then 6
         else if d < 243 + l then 7
         else if d < 273 + l then 8
         else if d < 304 + l then 9
         else if d < 334 + l then 10
         else 11)"

definition DateFromTime :: "int \<Rightarrow> int" where
  "DateFromTime t =
     (let d = DayWithinYear t; l = InLeapYear t; m = MonthFromTime t
      in if m = 0 then d + 1
         else if m = 1 then d - 30
         else if m = 2 then d - 58 - l
         else if m = 3 then d - 89 - l
         else if m = 4 then d - 119 - l
         else if m = 5 then d - 150 - l
         else if m = 6 then d - 180 - l
         else if m = 7 then d - 211 - l
         else if m = 8 then d - 242 - l
         else if m = 9 then d - 272 - l
         else if m = 10 then d - 303 - l
         else d - 333 - l)"

text \<open>The day within its year on which month \<open>mn\<close> (0 to 11) starts.\<close>

definition monthStart :: "int \<Rightarrow> int \<Rightarrow> int" where
  "monthStart mn l =
     (if mn = 0 then 0
      else if mn = 1 then 31
      else if mn = 2 then 59 + l
      else if mn = 3 then 90 + l
      else if mn = 4 then 120 + l
      else if mn = 5 then 151 + l
      else if mn = 6 then 181 + l
      else if mn = 7 then 212 + l
      else if mn = 8 then 243 + l
      else if mn = 9 then 273 + l
      else if mn = 10 then 304 + l
      else 334 + l)"

text \<open>
  \<open>MakeDay year month date\<close>: the day number of the first of the month
  (\<open>ym\<close>, \<open>mn\<close>), plus \<open>date - 1\<close>.
\<close>

definition MakeDay :: "int \<Rightarrow> int \<Rightarrow> int \<Rightarrow> int" where
  "MakeDay year month date =
     (let ym = year + month div 12; mn = month mod 12
      in DayFromYear ym + monthStart mn (if DaysInYear ym = 366 then 1 else 0) + date - 1)"

definition MakeDate :: "int \<Rightarrow> int \<Rightarrow> int" where
  "MakeDate day time = day * msPerDay + time"

definition LocalTime :: "timezone \<Rightarrow> int \<Rightarrow> int" where
  "LocalTime tz t = t + offsetOfUTC tz t"

definition UTC :: "timezone \<Rightarrow> int \<Rightarrow> int" where
  "UTC tz t = t - offsetOfLocal tz t"

text \<open>
  Date objects live in a heap, a list of time values; a reference is an index into it.
  \<open>new_Date\<close> allocates, \<open>getTime\<close> and \<open>getDate\<close> read, \<open>setDate\<close> overwrites the
  object it is called on.
\<close>

type_synonym date_heap = "time_value list"

definition new_Date :: "time_value \<Rightarrow> date_heap \<Rightarrow> nat \<times> date_heap" where
  "new_Date v h = (length h, h @ [case v of None \<Rightarrow> None | Some t \<Rightarrow> TimeClip t])"

definition getTime :: "date_heap \<Rightarrow> nat \<Rightarrow> time_value" where
  "getTime h r = h ! r"

definition getDate :: "timezone \<Rightarrow> date_heap \<Rightarrow> nat \<Rightarrow> int option" where
  "getDate tz h r =
     (case h ! r of None \<Rightarrow> None | Some t \<Rightarrow> Some (DateFromTime (LocalTime tz t)))"

definition setDate :: "timezone \<Rightarrow> nat \<Rightarrow> int option \<Rightarrow> date_heap \<Rightarrow> date_heap" where
  "setDate tz r date h =
     h[r := (case h ! r of
               None \<Rightarrow> None
             | Some t0 \<Rightarrow>
                 (case date of
                    None \<Rightarrow> None
                  | Some dt \<Rightarrow>
                      (let t = LocalTime tz t0;
                           newDate = MakeDate (MakeDay (YearFromTime t) (MonthFromTime t) dt)
                                       (TimeWithinDay t)
                       in TimeClip (UTC tz newDate))))]"

subsection \<open>calculcateDeletedAt and getDeletedAt\<close>

text \<open>
  \<open>afterDays\<close> is a whole number of days. \<^verbatim>\<open>copyDate.getDate() + afterDays\<close> is
  \<^verbatim>\<open>NaN\<close> when the date is invalid.
\<close>

definition calculcateDeletedAt :: "timezone \<Rightarrow> nat \<Rightarrow> int \<Rightarrow> date_heap \<Rightarrow> nat \<times> date_heap" where
  "calculcateDeletedAt tz lastModified afterDays h =
     (case new_Date (getTime h lastModified) h of
        (copyDate, h1) \<Rightarrow>
          (copyDate,
           setDate tz copyDate
             (case getDate tz h1 copyDate of None \<Rightarrow> None | Some d \<Rightarrow> Some (d + afterDays)) h1))"

text \<open>The aggregate \<^verbatim>\<open>max\<close> of SQL: \<^verbatim>\<open>NULL\<close> over no rows.\<close>

definition sql_max :: "int list \<Rightarrow> int option" where
  "sql_max xs = (case xs of [] \<Rightarrow> None | y # ys \<Rightarrow> Some (fold max ys y))"

text \<open>
  \<^verbatim>\<open>select max(node.lastModified) AS lastModified ... where nodeMapId = :id\<close>, read with
  \<^verbatim>\<open>getRawOne\<close>; the database folds the alias to \<^verbatim>\<open>lastmodified\<close>, the key the service
  reads.
\<close>

definition nodes_maxLastModified :: "string \<Rightarrow> store \<Rightarrow> int option \<times> store" where
  "nodes_maxLastModified m s =
     (sql_max (map lastModified_node (filter (\<lambda>n. nodeMapId n = m) (nodesRepository s))),
      accessed s)"

definition getDeletedAt ::
  "timezone \<Rightarrow> mmpMap option \<Rightarrow> int \<Rightarrow> store \<Rightarrow> date_heap \<Rightarrow> (error + nat) \<times> store \<times> date_heap" where
  "getDeletedAt tz mapArg afterDays s h =
     (case mapArg of
        None \<Rightarrow> (Inl Rejected, s, h)
      | Some m \<Rightarrow>
          (case nodes_maxLastModified (id_map m) s of
             (newestNodeLastModified, s1) \<Rightarrow>
               (case new_Date (Some (case newestNodeLastModified of
                                       None \<Rightarrow> lastModified_map m
                                     | Some t \<Rightarrow> t)) h of
                  (d, h1) \<Rightarrow>
                    (case calculcateDeletedAt tz d afterDays h1 of
                       (r, h2) \<Rightarrow> (Inr r, s1, h2)))))"

subsection \<open>exportMapToClient\<close>

text \<open>
  \<open>deleteAfterDays\<close> is what \<^verbatim>\<open>configService.deleteAfterDays()\<close> returns and
  \<open>mapMmpMapToClient\<close> the imported mapping to the client's shape; both are parameters.
  The mapping is given the time value of the deadline.
\<close>

definition exportMapToClient ::
  "(string \<Rightarrow> bool) \<Rightarrow> int \<Rightarrow> (mmpMap \<Rightarrow> mmpNode list \<Rightarrow> time_value \<Rightarrow> int \<Rightarrow> 'r) \<Rightarrow> timezone
     \<Rightarrow> string \<Rightarrow> store \<Rightarrow> date_heap \<Rightarrow> (error + 'r) \<times> store \<times> date_heap" where
  "exportMapToClient uuidValidate deleteAfterDays mapMmpMapToClient tz u s h =
     (case findMap uuidValidate u s of
        (Inl e, s1) \<Rightarrow> (Inl e, s1, h)
      | (Inr None, s1) \<Rightarrow> (Inl Rejected, s1, h)
      | (Inr (Some m), s1) \<Rightarrow>
          (case findNodes (id_map m) s1 of
             (Inl e, s2) \<Rightarrow> (Inl e, s2, h)
           | (Inr nodes, s2) \<Rightarrow>
               (case getDeletedAt tz (Some m) deleteAfterDays s2 h of
                  (Inl e, s3, h3) \<Rightarrow> (Inl e, s3, h3)
                | (Inr d, s3, h3) \<Rightarrow>
                    (Inr (mapMmpMapToClient m nodes (getTime h3 d) deleteAfterDays), s3, h3))))"

subsection \<open>deleteOutdatedMaps\<close>

text \<open>
  The conditions of the query are evaluated in the three-valued logic of SQL: \<open>None\<close> is
  \<^verbatim>\<open>NULL\<close>, and a row is selected when its condition is true.
  A time stamp with time zone plus \<^verbatim>\<open>INTERVAL '1 day' * n\<close> is computed in the time
  zone of the session: the local time of the time stamp is moved by \<open>n\<close> calendar days and
  read back as an instant (\<open>n\<close> times 24 hours later only where the offset of the zone
  is the same at both ends).
\<close>

definition plusCalendarDays :: "timezone \<Rightarrow> int \<Rightarrow> int \<Rightarrow> int" where
  "plusCalendarDays tz x n = UTC tz (LocalTime tz x + n * msPerDay)"

definition sql_plus_days :: "timezone \<Rightarrow> int option \<Rightarrow> int \<Rightarrow> int option" where
  "sql_plus_days tz t n = (case t of None \<Rightarrow> None | Some x \<Rightarrow> Some (plusCalendarDays tz x n))"

definition sql_lt :: "int option \<Rightarrow> int option \<Rightarrow> bool option" where
  "sql_lt a b =
     (case a of None \<Rightarrow> None | Some x \<Rightarrow> (case b of None \<Rightarrow> None | Some y \<Rightarrow> Some (x < y)))"

definition sql_is_null :: "int option \<Rightarrow> bool option" where
  "sql_is_null a = Some (a = None)"

definition sql_and :: "bool option \<Rightarrow> bool option \<Rightarrow> bool option" where
  "sql_and a b =
     (if a = Some False \<or> b = Some False then Some False
      else if a = Some True \<and> b = Some True then Some True else None)"

definition sql_or :: "bool option \<Rightarrow> bool option \<Rightarrow> bool option" where
  "sql_or a b =
     (if a = Some True \<or> b = Some True then Some True
      else if a = Some False \<and> b = Some False then Some False else None)"

text \<open>
  The subquery \<^verbatim>\<open>lastmodifiednode\<close>: one row per map that owns a node, with the newest
  \<^verbatim>\<open>lastModified\<close> of its nodes.
\<close>

definition lastmodifiednode :: "mmpNode list \<Rightarrow> (string \<times> int option) list" where
  "lastmodifiednode rows =
     map (\<lambda>k. (k, sql_max (map lastModified_node (filter (\<lambda>n. nodeMapId n = k) rows))))
       (remdups (map nodeMapId rows))"

text \<open>
  The left join on \<^verbatim>\<open>lastmodifiednode.nodeMapid = map.id\<close>: a map row is paired with each
  matching row of the subquery, and with \<^verbatim>\<open>NULL\<close> when there is none.
\<close>

definition leftJoin :: "mmpMap list \<Rightarrow> (string \<times> int option) list \<Rightarrow> (mmpMap \<times> int option) list" where
  "leftJoin ms sub =
     concat (map (\<lambda>m. case filter (\<lambda>r. fst r = id_map m) sub of
                          [] \<Rightarrow> [(m, None)]
                        | rs \<Rightarrow> map (\<lambda>r. (m, snd r)) rs) ms)"

definition deleteQuery :: "int \<Rightarrow> int \<Rightarrow> store \<Rightarrow> string list \<times> store" where
  "deleteQuery afterDays today s =
     (map (\<lambda>r. id_map (fst r))
        (filter (\<lambda>r. sql_or
                       (sql_lt (sql_plus_days (sessionTimeZone s) (snd r) afterDays) (Some today))
                       (sql_and (sql_is_null (snd r))
                          (sql_lt (sql_plus_days (sessionTimeZone s) (Some (lastModified_map (fst r))) afterDays)
                             (Some today)))
                     = Some True)
           (leftJoin (mapsRepository s) (lastmodifiednode (nodesRepository s)))),
      accessed s)"

text \<open>
  \<^verbatim>\<open>delete from map where id IN (:...ids)\<close>; the result reports the number of map rows
  deleted. Modelled from the spec: the foreign key of a node to its map is declared with the
  entities, and the spec states that deleting a map cascades to its nodes.
\<close>

definition maps_deleteIn :: "string list \<Rightarrow> store \<Rightarrow> nat \<times> store" where
  "maps_deleteIn ids s =
     (length (filter (\<lambda>m. id_map m \<in> set ids) (mapsRepository s)),
      accessed (s\<lparr>mapsRepository := filter (\<lambda>m. id_map m \<notin> set ids) (mapsRepository s),
                  nodesRepository := filter (\<lambda>n. nodeMapId n \<notin> set ids) (nodesRepository s)\<rparr>))"

text \<open>\<open>today\<close> is the time value of \<^verbatim>\<open>new Date()\<close> at the call.\<close>

definition deleteOutdatedMaps :: "int \<Rightarrow> int \<Rightarrow> store \<Rightarrow> (error + nat) \<times> store" where
  "deleteOutdatedMaps afterDays today s =
     (case deleteQuery afterDays today s of
        (outdatedMapsIdsFlat, s1) \<Rightarrow>
          if length outdatedMapsIdsFlat > 0
          then (case maps_deleteIn outdatedMapsIdsFlat s1 of (affected, s2) \<Rightarrow> (Inr affected, s2))
          else (Inr 0, s1))"

subsection \<open>The batch insert in the words of the spec\<close>



subsection \<open>Outdated maps in the words of the spec\<close>

text \<open>
  A map is outdated when the most recent modification time of its nodes plus the retention
  days has elapsed or, when it has no nodes, when its own last-modified time plus the retention
  days has elapsed; the days are calendar days of the time zone \<open>tz\<close>.
\<close>

definition nodeTimes :: "mmpNode list \<Rightarrow> mmpMap \<Rightarrow> int list" where
  "nodeTimes rows m = map lastModified_node (filter (\<lambda>n. nodeMapId n = id_map m) rows)"

definition isOutdated_spec :: "timezone \<Rightarrow> int \<Rightarrow> int \<Rightarrow> mmpNode list \<Rightarrow> mmpMap \<Rightarrow> bool" where
  "isOutdated_spec tz afterDays today rows m =
     (if nodeTimes rows m = [] then plusCalendarDays tz (lastModified_map m) afterDays < today
      else plusCalendarDays tz (Max (set (nodeTimes rows m))) afterDays < today)"

subsection \<open>Concrete values used to exercise the model\<close>

text \<open>
  An instance of the validator parameter, after the pattern of the \<^verbatim>\<open>uuid\<close> package:
  five groups of 8, 4, 4, 4 and 12 hexadecimal digits separated by dashes, with a version digit
  from 1 to 8 and a variant digit among 8, 9, a, b; or the nil or the max identifier.
\<close>

definition uuid_shape :: "(char \<Rightarrow> bool) \<Rightarrow> (char \<Rightarrow> bool) \<Rightarrow> (char \<Rightarrow> bool) \<Rightarrow> string \<Rightarrow> bool" where
  "uuid_shape digit version variant u =
     (length u = 36 \<and>
      list_all digit (take 8 u) \<and> u ! 8 = CHR ''-'' \<and>
      list_all digit (take 4 (drop 9 u)) \<and> u ! 13 = CHR ''-'' \<and>
      version (u ! 14) \<and> list_all digit (take 3 (drop 15 u)) \<and> u ! 18 = CHR ''-'' \<and>
      variant (u ! 19) \<and> list_all digit (take 3 (drop 20 u)) \<and> u ! 23 = CHR ''-'' \<and>
      list_all digit (drop 24 u))"

definition uuid_regex_test :: "string \<Rightarrow> bool" where
  "uuid_regex_test u =
     (uuid_shape (\<lambda>c. c \<in> set ''0123456789abcdefABCDEF'') (\<lambda>c. c \<in> set ''12345678'')
        (\<lambda>c. c \<in> set ''89abAB'') u
      \<or> uuid_shape (\<lambda>c. c = CHR ''0'') (\<lambda>c. c = CHR ''0'') (\<lambda>c. c = CHR ''0'') u
      \<or> uuid_shape (\<lambda>c. c \<in> set ''fF'') (\<lambda>c. c \<in> set ''fF'') (\<lambda>c. c \<in> set ''fF'') u)"

definition tz_utc :: timezone where
  "tz_utc = \<lparr>offsetOfUTC = (\<lambda>t. 0), offsetOfLocal = (\<lambda>t. 0)\<rparr>"

text \<open>
  An instance of the column parameter: it reads a text of the form 8-4-4-4-12, whatever the
  case of its digits, as its lower-case spelling, and nothing else.
\<close>

definition lower_hex :: "char \<Rightarrow> char" where
  "lower_hex c =
     (if c = CHR ''A'' then CHR ''a'' else if c = CHR ''B'' then CHR ''b''
      else if c = CHR ''C'' then CHR ''c'' else if c = CHR ''D'' then CHR ''d''
      else if c = CHR ''E'' then CHR ''e'' else if c = CHR ''F'' then CHR ''f'' else c)"

definition ex_uuid_in :: "string \<Rightarrow> string option" where
  "ex_uuid_in u =
     (if uuid_shape (\<lambda>c. c \<in> set ''0123456789abcdefABCDEF'')
           (\<lambda>c. c \<in> set ''0123456789abcdefABCDEF'') (\<lambda>c. c \<in> set ''0123456789abcdefABCDEF'') u
      then Some (map lower_hex u) else None)"

definition ex_uuid_upper :: string where
  "ex_uuid_upper = ''123E4567-E89B-42D3-A456-426614174000''"

definition ex_uuid :: string where
  "ex_uuid = ''123e4567-e89b-42d3-a456-426614174000''"

definition ex_map :: mmpMap where
  "ex_map = \<lparr>id_map = ex_uuid, lastModified_map = 1000\<rparr>"

definition ex_root :: mmpNode where
  "ex_root = \<lparr>id_node = ''P'', nodeMapId = ex_uuid, nodeParentId = None, root = True,
      detached = False, orderNumber = 1, lastModified_node = 2000\<rparr>"

definition ex_child :: mmpNode where
  "ex_child = \<lparr>id_node = ''C'', nodeMapId = ex_uuid, nodeParentId = Some ''P'', root = False,
      detached = False, orderNumber = 2, lastModified_node = 3000\<rparr>"

definition ex_detached :: mmpNode where
  "ex_detached = \<lparr>id_node = ''D'', nodeMapId = ex_uuid, nodeParentId = Some ''P'', root = False,
      detached = True, orderNumber = 3, lastModified_node = 4000\<rparr>"

definition ex_store :: "mmpNode list \<Rightarrow> store" where
  "ex_store rows = \<lparr>nodesRepository = rows, mapsRepository = [ex_map], logger = [],
      dbAccesses = 0, unhandledRejections = 0,
      uuid_in = ex_uuid_in, sessionTimeZone = tz_utc\<rparr>"

definition ex_other :: mmpNode where
  "ex_other = \<lparr>id_node = ''Q'', nodeMapId = [], nodeParentId = None, root = True,
      detached = False, orderNumber = 1, lastModified_node = 5000\<rparr>"

text \<open>
  An instance of the mapping parameter for a client whose nodes already have the shape of the
  entity: the node is tagged with the map.
\<close>

definition ex_mapping :: "mmpNode \<Rightarrow> string \<Rightarrow> mmpNode" where
  "ex_mapping x mapId = x\<lparr>nodeMapId := mapId\<rparr>"

text \<open>
  A storage for the sweep, read at day 100: map \<open>m1\<close> has nodes, the newest modified on
  day 69; \<open>m2\<close> has a node modified on day 71; \<open>m3\<close> and \<open>m4\<close> have no nodes and
  were modified on day 69 and day 71.
\<close>

definition ex_node_at :: "string \<Rightarrow> string \<Rightarrow> int \<Rightarrow> mmpNode" where
  "ex_node_at i m day = \<lparr>id_node = i, nodeMapId = m, nodeParentId = None, root = True,
      detached = False, orderNumber = 1, lastModified_node = day * 86400000\<rparr>"

definition ex_sweep_store :: store where
  "ex_sweep_store =
     \<lparr>nodesRepository = [ex_node_at ''n1'' ''m1'' 50, ex_node_at ''n2'' ''m1'' 69,
                          ex_node_at ''n3'' ''m2'' 71],
      mapsRepository = [\<lparr>id_map = ''m1'', lastModified_map = 0\<rparr>,
                         \<lparr>id_map = ''m2'', lastModified_map = 0\<rparr>,
                         \<lparr>id_map = ''m3'', lastModified_map = 69 * 86400000\<rparr>,
                         \<lparr>id_map = ''m4'', lastModified_map = 71 * 86400000\<rparr>],
      logger = [], dbAccesses = 0, unhandledRejections = 0,
      uuid_in = ex_uuid_in, sessionTimeZone = tz_utc\<rparr>"


section \<open>Properties\<close>

subsection \<open>Auxiliary facts about lists and the repositories\<close>

lemma mapStored_frame [simp]:
  "mapStored (s\<lparr>dbAccesses := k\<rparr>) m = mapStored s m"
  "mapStored (s\<lparr>nodesRepository := rows\<rparr>) m = mapStored s m"
  "mapStored (s\<lparr>logger := w\<rparr>) m = mapStored s m"
  "mapStored (s\<lparr>unhandledRejections := u\<rparr>) m = mapStored s m"
  by (simp_all add: mapStored_def same_uuid_def)

lemma find_None_all: "(find P xs = None) = (\<forall>x\<in>set xs. \<not> P x)"
  by (induction xs) auto

lemma find_Some_in: "find P xs = Some x \<Longrightarrow> x \<in> set xs \<and> P x"
  by (induction xs) (auto split: if_splits)


lemma ex_uuid_wellformed: "uuid_regex_test ex_uuid"
  by (simp add: uuid_regex_test_def uuid_shape_def ex_uuid_def)

lemma not_a_uuid_malformed: "\<not> uuid_regex_test ''not-a-uuid''"
  by (simp add: uuid_regex_test_def uuid_shape_def)

lemma ex_uuid_upper_wellformed: "uuid_regex_test ex_uuid_upper"
  by (simp add: uuid_regex_test_def uuid_shape_def ex_uuid_upper_def)

lemma ex_uuid_in_values:
  "ex_uuid_in ex_uuid = Some ex_uuid" "ex_uuid_in ex_uuid_upper = Some ex_uuid"
  "ex_uuid_in ''not-a-uuid'' = None"
  by (simp_all add: ex_uuid_in_def uuid_shape_def ex_uuid_def ex_uuid_upper_def lower_hex_def)

lemma ex_map_stored [simp]: "mapStored (ex_store rows) ex_uuid"
  by (simp add: mapStored_def same_uuid_def ex_store_def ex_map_def ex_uuid_in_values)

subsection \<open>The reduction of the batch insert refines the loop of the spec\<close>



lemma addNode_value_None:
  assumes "mapId \<noteq> []" and "\<not> (detached n \<and> truthy_opt (nodeParentId n))"
    and "find (\<lambda>r. id_node r = id_node n \<and> nodeMapId r = mapId) (nodesRepository s) = None"
    and "mapStored s mapId"
  shows "addNode mapId (Some n) s =
           (Inr (n\<lparr>nodeMapId := mapId\<rparr>),
            s\<lparr>nodesRepository := nodesRepository s @ [n\<lparr>nodeMapId := mapId\<rparr>],
              dbAccesses := Suc (Suc (dbAccesses s))\<rparr>)"
proof -
  have "\<forall>r\<in>set (nodesRepository s). \<not> (id_node r = id_node n \<and> nodeMapId r = mapId)"
    using assms(3) by (simp add: find_None_all)
  then have "\<not> list_ex (same_key (n\<lparr>nodeMapId := mapId\<rparr>)) (nodesRepository s)"
    by (auto simp: list_ex_iff same_key_def)
  then show ?thesis
    using assms
    by (simp add: addNode_def truthy_def nodes_findOne_def nodes_save_def accessed_def)
qed

lemma addNode_value_refused:
  assumes "mapId \<noteq> []" and "\<not> (detached n \<and> truthy_opt (nodeParentId n))"
    and "find (\<lambda>r. id_node r = id_node n \<and> nodeMapId r = mapId) (nodesRepository s) = None"
    and "\<not> mapStored s mapId"
  shows "addNode mapId (Some n) s =
           (Inl QueryFailedError, s\<lparr>dbAccesses := Suc (Suc (dbAccesses s))\<rparr>)"
proof -
  have "\<forall>r\<in>set (nodesRepository s). \<not> (id_node r = id_node n \<and> nodeMapId r = mapId)"
    using assms(3) by (simp add: find_None_all)
  then have "\<not> list_ex (same_key (n\<lparr>nodeMapId := mapId\<rparr>)) (nodesRepository s)"
    by (auto simp: list_ex_iff same_key_def)
  then show ?thesis
    using assms
    by (simp add: addNode_def truthy_def nodes_findOne_def nodes_save_def accessed_def)
qed

lemma addNode_value_Some:
  assumes "mapId \<noteq> []" and "\<not> (detached n \<and> truthy_opt (nodeParentId n))"
    and "find (\<lambda>r. id_node r = id_node n \<and> nodeMapId r = mapId) (nodesRepository s) = Some e"
  shows "addNode mapId (Some n) s = (Inr e, s\<lparr>dbAccesses := Suc (dbAccesses s)\<rparr>)"
  using assms by (simp add: addNode_def truthy_def nodes_findOne_def accessed_def)

lemma foldl_reducer_Inl: "foldl (reducer mapId) (Inl e, s) ns = (Inl e, s)"
  by (induction ns) (simp_all add: reducer_def)



subsection \<open>What the reduction does to the storage, whatever the input\<close>

lemma validates_frame:
  "validatesNodeParentForNode mapId n s = (r, s') \<Longrightarrow>
     (\<exists>b. r = Inr b) \<and> (\<exists>k. s' = s\<lparr>dbAccesses := k\<rparr>)"
proof -
  assume a: "validatesNodeParentForNode mapId n s = (r, s')"
  have "s = s\<lparr>dbAccesses := dbAccesses s\<rparr>" by simp
  then have e: "\<exists>k. s = s\<lparr>dbAccesses := k\<rparr>" by blast
  show ?thesis
    using a e
    by (auto simp: validatesNodeParentForNode_def existsNode_def nodes_exist_def accessed_def
        split: if_splits option.splits)
qed

lemma addNode_cases:
  assumes "addNode mapId (Some n) s = (r, s')"
  shows "mapsRepository s' = mapsRepository s \<and> unhandledRejections s' = unhandledRejections s \<and>
     logger s' = logger s \<and> uuid_in s' = uuid_in s \<and>
     ((\<exists>e. r = Inl e) \<and> nodesRepository s' = nodesRepository s \<or>
      (\<exists>x. r = Inr x \<and> nodeMapId x = mapId \<and> mapId \<noteq> [] \<and>
           (nodesRepository s' = nodesRepository s \<and> x \<in> set (nodesRepository s) \<or>
            nodesRepository s' = nodesRepository s @ [x])))"
proof (cases "mapId \<noteq> [] \<and> \<not> (detached n \<and> truthy_opt (nodeParentId n))")
  case False
  then show ?thesis
    using assms by (auto simp: addNode_def truthy_def split: if_splits)
next
  case True
  show ?thesis
  proof (cases "find (\<lambda>r. id_node r = id_node n \<and> nodeMapId r = mapId) (nodesRepository s)")
    case None
    then show ?thesis
      using assms True addNode_value_None [of mapId n s] addNode_value_refused [of mapId n s]
      by (cases "mapStored s mapId") auto
  next
    case (Some e)
    then show ?thesis
      using assms True addNode_value_Some [of mapId n s e] find_Some_in [OF Some] by auto
  qed
qed

lemma reducer_cases:
  assumes "reducer mapId (Inr acc, s) n = (r1, s1)"
  shows "mapsRepository s1 = mapsRepository s \<and> unhandledRejections s1 = unhandledRejections s \<and>
     uuid_in s1 = uuid_in s \<and>
     ((\<exists>e. r1 = Inl e) \<and> nodesRepository s1 = nodesRepository s \<or>
      r1 = Inr acc \<and> nodesRepository s1 = nodesRepository s \<or>
      (\<exists>x. r1 = Inr (acc @ [x]) \<and> nodeMapId x = mapId \<and> mapId \<noteq> [] \<and>
           (nodesRepository s1 = nodesRepository s \<and> x \<in> set (nodesRepository s) \<or>
            nodesRepository s1 = nodesRepository s @ [x])))"
proof -
  obtain rv sv where v: "validatesNodeParentForNode mapId n s = (rv, sv)"
    by (metis surj_pair)
  then obtain b k where b: "rv = Inr b" and sv: "sv = s\<lparr>dbAccesses := k\<rparr>"
    using validates_frame by blast
  show ?thesis
  proof (cases b)
    case False
    then show ?thesis using assms v b sv by (auto simp: reducer_def)
  next
    case True
    obtain ra sa where a: "addNode mapId (Some n) sv = (ra, sa)"
      by (metis surj_pair)
    have r: "reducer mapId (Inr acc, s) n =
       (case ra of Inl e \<Rightarrow> (Inl e, sa) | Inr created \<Rightarrow> (Inr (acc @ [created]), sa))"
      using v b True a by (simp add: reducer_def split: sum.splits)
    show ?thesis
      using addNode_cases [OF a] r assms sv by (auto split: sum.splits)
  qed
qed

lemma foldl_reducer_frame:
  "foldl (reducer mapId) (Inr acc, s) ns = (r, s') \<Longrightarrow>
   \<exists>ins. nodesRepository s' = nodesRepository s @ ins \<and> (\<forall>x\<in>set ins. nodeMapId x = mapId) \<and>
     (ins \<noteq> [] \<longrightarrow> mapId \<noteq> []) \<and>
     mapsRepository s' = mapsRepository s \<and> unhandledRejections s' = unhandledRejections s \<and>
     uuid_in s' = uuid_in s \<and>
     (\<forall>res. r = Inr res \<longrightarrow>
        (\<exists>res'. res = acc @ res' \<and> set ins \<subseteq> set res' \<and>
           (\<forall>x\<in>set res'. x \<in> set (nodesRepository s') \<and> nodeMapId x = mapId)))"
proof (induction ns arbitrary: acc s r s')
  case Nil
  then show ?case by auto
next
  case (Cons n ns)
  obtain r1 s1 where st: "reducer mapId (Inr acc, s) n = (r1, s1)"
    by (metis surj_pair)
  have fo: "foldl (reducer mapId) (r1, s1) ns = (r, s')"
    using Cons.prems st by simp
  note rc = reducer_cases [OF st]
  show ?case
  proof (cases r1)
    case (Inl e)
    then have "r = Inl e" "s' = s1"
      using fo by (simp_all add: foldl_reducer_Inl)
    then show ?thesis
      using rc Inl by auto
  next
    case (Inr acc1)
    then obtain ins where ih: "nodesRepository s' = nodesRepository s1 @ ins"
        "\<forall>x\<in>set ins. nodeMapId x = mapId" "ins \<noteq> [] \<longrightarrow> mapId \<noteq> []"
        "mapsRepository s' = mapsRepository s1" "unhandledRejections s' = unhandledRejections s1"
        "\<forall>res. r = Inr res \<longrightarrow>
        (\<exists>res'. res = acc1 @ res' \<and> set ins \<subseteq> set res' \<and>
           (\<forall>x\<in>set res'. x \<in> set (nodesRepository s') \<and> nodeMapId x = mapId))"
        "uuid_in s' = uuid_in s1"
      using Cons.IH [of acc1 s1 r s'] fo by auto
    from rc Inr consider
        (same) "acc1 = acc" "nodesRepository s1 = nodesRepository s"
      | (old) x where "acc1 = acc @ [x]" "nodeMapId x = mapId" "nodesRepository s1 = nodesRepository s"
            "x \<in> set (nodesRepository s)"
      | (new) x where "acc1 = acc @ [x]" "nodeMapId x = mapId" "mapId \<noteq> []"
            "nodesRepository s1 = nodesRepository s @ [x]"
      by auto
    then show ?thesis
    proof cases
      case same
      then show ?thesis using ih rc by auto
    next
      case old
      have "\<forall>res. r = Inr res \<longrightarrow>
        (\<exists>res'. res = acc @ res' \<and> set ins \<subseteq> set res' \<and>
           (\<forall>x\<in>set res'. x \<in> set (nodesRepository s') \<and> nodeMapId x = mapId))"
      proof (intro allI impI)
        fix res assume "r = Inr res"
        then obtain res' where "res = acc1 @ res'" "set ins \<subseteq> set res'"
           "\<forall>x\<in>set res'. x \<in> set (nodesRepository s') \<and> nodeMapId x = mapId"
          using ih(6) by blast
        then show "\<exists>res'. res = acc @ res' \<and> set ins \<subseteq> set res' \<and>
           (\<forall>x\<in>set res'. x \<in> set (nodesRepository s') \<and> nodeMapId x = mapId)"
          using old ih(1) by (intro exI [of _ "x # res'"]) auto
      qed
      then show ?thesis using ih rc old by auto
    next
      case new
      have "\<forall>res. r = Inr res \<longrightarrow>
        (\<exists>res'. res = acc @ res' \<and> set (x # ins) \<subseteq> set res' \<and>
           (\<forall>x\<in>set res'. x \<in> set (nodesRepository s') \<and> nodeMapId x = mapId))"
      proof (intro allI impI)
        fix res assume "r = Inr res"
        then obtain res' where "res = acc1 @ res'" "set ins \<subseteq> set res'"
           "\<forall>x\<in>set res'. x \<in> set (nodesRepository s') \<and> nodeMapId x = mapId"
          using ih(6) by blast
        then show "\<exists>res'. res = acc @ res' \<and> set (x # ins) \<subseteq> set res' \<and>
           (\<forall>x\<in>set res'. x \<in> set (nodesRepository s') \<and> nodeMapId x = mapId)"
          using new ih(1) by (intro exI [of _ "x # res'"]) auto
      qed
      then show ?thesis
        using ih rc new by (intro exI [of _ "x # ins"]) auto
    qed
  qed
qed

subsection \<open>The reduction under an empty map identifier\<close>

lemma foldl_reducer_emptyMap_skip:
  "\<forall>n\<in>set ns. \<not> root n \<and> \<not> detached n \<Longrightarrow>
   foldl (reducer []) (Inr acc, s) ns =
     (Inr acc, s\<lparr>logger := logger s @ map (\<lambda>n. ParentDoesNotExist (nodeParentId n) (id_node n) []) ns\<rparr>)"
proof (induction ns arbitrary: s)
  case Nil
  then show ?case by simp
next
  case (Cons n ns)
  have "reducer [] (Inr acc, s) n =
     (Inr acc, s\<lparr>logger := logger s @ [ParentDoesNotExist (nodeParentId n) (id_node n) []]\<rparr>)"
    using Cons.prems
    by (simp add: reducer_def validatesNodeParentForNode_def existsNode_def truthy_def
        split: option.splits)
  then show ?case
    using Cons by simp
qed

lemma foldl_reducer_emptyMap_reject:
  "\<exists>n\<in>set ns. root n \<or> detached n \<Longrightarrow>
   fst (foldl (reducer []) (Inr acc, s) ns) = Inl Rejected"
proof (induction ns arbitrary: s)
  case Nil
  then show ?case by simp
next
  case (Cons n ns)
  show ?case
  proof (cases "root n \<or> detached n")
    case True
    then have "reducer [] (Inr acc, s) n = (Inl Rejected, s)"
      by (auto simp: reducer_def validatesNodeParentForNode_def addNode_def truthy_def)
    then show ?thesis
      by (simp add: foldl_reducer_Inl)
  next
    case False
    then have "reducer [] (Inr acc, s) n =
       (Inr acc, s\<lparr>logger := logger s @ [ParentDoesNotExist (nodeParentId n) (id_node n) []]\<rparr>)"
      by (simp add: reducer_def validatesNodeParentForNode_def existsNode_def truthy_def
          split: option.splits)
    then show ?thesis
      using Cons False by simp
  qed
qed

subsection \<open>Properties of the loop of the spec\<close>




subsection \<open>Frames of addNodes and findMap\<close>

lemma ex_uuid_nonempty: "ex_uuid \<noteq> []"
  by (simp add: ex_uuid_def)

lemma addNodes_frame:
  assumes "addNodes mapId nodes s = (r, s')"
  shows "\<exists>ins. nodesRepository s' = nodesRepository s @ ins \<and> (\<forall>x\<in>set ins. nodeMapId x = mapId) \<and>
     mapsRepository s' = mapsRepository s \<and> uuid_in s' = uuid_in s \<and>
     (\<forall>res. r = Inr res \<longrightarrow> set ins \<subseteq> set res \<and>
           (\<forall>x\<in>set res. x \<in> set (nodesRepository s') \<and> nodeMapId x = mapId))"
proof -
  let ?s0 = "if \<not> truthy mapId \<or> length nodes = 0
        then s\<lparr>unhandledRejections := Suc (unhandledRejections s)\<rparr> else s"
  have f: "foldl (reducer mapId) (Inr [], ?s0) nodes = (r, s')"
    using assms by (simp add: addNodes_def)
  have rows0: "nodesRepository ?s0 = nodesRepository s" "mapsRepository ?s0 = mapsRepository s"
      "uuid_in ?s0 = uuid_in s"
    by simp_all
  from foldl_reducer_frame [OF f] show ?thesis
    unfolding rows0 by auto
qed

lemma findMap_frame:
  "nodesRepository (snd (findMap v u s)) = nodesRepository s \<and>
   mapsRepository (snd (findMap v u s)) = mapsRepository s \<and>
   fst (findMap v u s) =
     (if \<not> v u then Inl (MalformedUUIDError ''Invalid UUID'')
      else (case uuid_in s u of
              None \<Rightarrow> Inl QueryFailedError
            | Some w \<Rightarrow> Inr (find (\<lambda>m. uuid_in s (id_map m) = Some w) (mapsRepository s))))"
  by (simp add: findMap_def maps_findOne_def accessed_def split: option.splits)

subsection \<open>The query of the sweep\<close>

lemma plusCalendarDays_bounds:
  assumes "\<forall>x y. \<bar>offsetOfUTC tz x - offsetOfLocal tz y\<bar> < msPerDay"
  shows "t + (n - 1) * msPerDay < plusCalendarDays tz t n \<and>
         plusCalendarDays tz t n < t + (n + 1) * msPerDay"
proof -
  have "\<bar>offsetOfUTC tz t - offsetOfLocal tz (LocalTime tz t + n * msPerDay)\<bar> < msPerDay"
    using assms by blast
  then show ?thesis
    by (simp add: plusCalendarDays_def UTC_def LocalTime_def algebra_simps abs_less_iff)
qed

lemma sql_max_Max: "sql_max xs = (if xs = [] then None else Some (Max (set xs)))"
  by (cases xs) (simp_all add: sql_max_def Max.set_eq_fold [symmetric])

lemma filter_keyed:
  "distinct ks \<Longrightarrow>
   filter (\<lambda>r. fst r = k) (map (\<lambda>k. (k, g k)) ks) = (if k \<in> set ks then [(k, g k)] else [])"
  by (induction ks) auto

lemma leftJoin_lastmodifiednode:
  "leftJoin ms (lastmodifiednode rows) = map (\<lambda>m. (m, sql_max (nodeTimes rows m))) ms"
proof -
  have one: "\<And>m. (case filter (\<lambda>r. fst r = id_map m) (lastmodifiednode rows) of
                 [] \<Rightarrow> [(m, None)] | rs \<Rightarrow> map (\<lambda>r. (m, snd r)) rs) =
             [(m, sql_max (nodeTimes rows m))]"
  proof -
    fix m
    show "(case filter (\<lambda>r. fst r = id_map m) (lastmodifiednode rows) of
                 [] \<Rightarrow> [(m, None)] | rs \<Rightarrow> map (\<lambda>r. (m, snd r)) rs) =
             [(m, sql_max (nodeTimes rows m))]"
    proof (cases "id_map m \<in> nodeMapId ` set rows")
      case True
      then show ?thesis
        by (simp add: lastmodifiednode_def filter_keyed nodeTimes_def)
    next
      case False
      then have "filter (\<lambda>n. nodeMapId n = id_map m) rows = []"
        by (force simp: filter_empty_conv)
      then show ?thesis
        using False by (simp add: lastmodifiednode_def filter_keyed nodeTimes_def sql_max_def)
    qed
  qed
  show ?thesis
    unfolding leftJoin_def by (induction ms) (simp_all add: one)
qed

lemma where_condition:
  "(sql_or (sql_lt (sql_plus_days tz (sql_max (nodeTimes rows m)) afterDays) (Some today))
       (sql_and (sql_is_null (sql_max (nodeTimes rows m)))
          (sql_lt (sql_plus_days tz (Some (lastModified_map m)) afterDays) (Some today)))
     = Some True) = isOutdated_spec tz afterDays today rows m"
  by (simp add: sql_max_Max isOutdated_spec_def sql_or_def sql_and_def sql_lt_def sql_plus_days_def
      sql_is_null_def)

lemma deleteQuery_value:
  "deleteQuery afterDays today s =
     (map id_map (filter (isOutdated_spec (sessionTimeZone s) afterDays today (nodesRepository s)) (mapsRepository s)),
      accessed s)"
  by (simp add: deleteQuery_def leftJoin_lastmodifiednode filter_map comp_def where_condition)

lemma filter_by_key_of_filter:
  "distinct (map f xs) \<Longrightarrow> filter (\<lambda>x. f x \<in> f ` {y \<in> set xs. P y}) xs = filter P xs"
proof -
  assume d: "distinct (map f xs)"
  have "\<And>x. x \<in> set xs \<Longrightarrow> (f x \<in> f ` {y \<in> set xs. P y}) = P x"
    using d by (auto simp: distinct_map inj_on_def)
  then show ?thesis
    by (auto intro: filter_cong)
qed

lemma filter_by_key_not_of_filter:
  "distinct (map f xs) \<Longrightarrow> filter (\<lambda>x. f x \<notin> f ` {y \<in> set xs. P y}) xs = filter (\<lambda>x. \<not> P x) xs"
proof -
  assume d: "distinct (map f xs)"
  have "\<And>x. x \<in> set xs \<Longrightarrow> (f x \<in> f ` {y \<in> set xs. P y}) = P x"
    using d by (auto simp: distinct_map inj_on_def)
  then show ?thesis
    by (auto intro: filter_cong)
qed

lemma deleteOutdatedMaps_value:
  assumes "distinct (map id_map (mapsRepository s))"
  shows "deleteOutdatedMaps afterDays today s =
     (Inr (length (filter (isOutdated_spec (sessionTimeZone s) afterDays today (nodesRepository s)) (mapsRepository s))),
      if filter (isOutdated_spec (sessionTimeZone s) afterDays today (nodesRepository s)) (mapsRepository s) = []
      then accessed s
      else accessed (accessed s)
        \<lparr>mapsRepository :=
            filter (\<lambda>m. \<not> isOutdated_spec (sessionTimeZone s) afterDays today (nodesRepository s) m) (mapsRepository s),
          nodesRepository :=
            filter (\<lambda>n. nodeMapId n \<notin>
                         id_map ` set (filter (isOutdated_spec (sessionTimeZone s) afterDays today (nodesRepository s))
                                          (mapsRepository s)))
              (nodesRepository s)\<rparr>)"
  using assms
  by (simp add: deleteOutdatedMaps_def deleteQuery_value maps_deleteIn_def accessed_def
      filter_by_key_of_filter filter_by_key_not_of_filter)

subsection \<open>Day arithmetic of Date objects\<close>

text \<open>\<open>YearFromTime\<close> is the year whose days contain the day of \<open>t\<close>.\<close>

lemma div_bounds: "0 < k \<Longrightarrow> k * (a div k) \<le> a \<and> a < k * (a div k) + (k::int)"
proof -
  assume k: "0 < k"
  have "k * (a div k) + a mod k = a" by simp
  moreover have "0 \<le> a mod k" "a mod k < k" using k by simp_all
  ultimately show ?thesis by linarith
qed

lemma YearFromTime_is_year:
  "DayFromYear (YearFromTime t) \<le> Day t \<and> Day t < DayFromYear (YearFromTime t + 1)"
proof -
  define d where "d = Day t"
  define q where "q = (400 * d) div 146097"
  have q: "146097 * q \<le> 400 * d" "400 * d < 146097 * q + 146097"
    using div_bounds [of 146097 "400 * d"] by (simp_all add: q_def)
  have lo: "DayFromYear (1970 + q - 1) \<le> d"
    using q div_bounds [of 4 "q"] div_bounds [of 100 "q + 68"] div_bounds [of 400 "q + 368"]
    by (simp add: DayFromYear_def; linarith)
  have hi: "d < DayFromYear (1970 + q + 1 + 1)"
    using q div_bounds [of 4 "q + 3"] div_bounds [of 100 "q + 71"] div_bounds [of 400 "q + 371"]
    by (simp add: DayFromYear_def; linarith)
  show ?thesis
    using lo hi
    by (auto simp: YearFromTime_def Let_def d_def [symmetric] q_def [symmetric])
qed

lemma MonthFromTime_range: "0 \<le> MonthFromTime t \<and> MonthFromTime t \<le> 11"
  by (simp add: MonthFromTime_def Let_def)

lemma DateFromTime_monthStart:
  "DateFromTime t = DayWithinYear t - monthStart (MonthFromTime t) (InLeapYear t) + 1"
  by (simp add: DateFromTime_def monthStart_def Let_def)

lemma MakeDay_same_month:
  "MakeDay (YearFromTime t) (MonthFromTime t) (DateFromTime t + n) = Day t + n"
proof -
  have "MonthFromTime t div 12 = 0" "MonthFromTime t mod 12 = MonthFromTime t"
    using MonthFromTime_range [of t] by simp_all
  then show ?thesis
    by (simp add: MakeDay_def Let_def DateFromTime_monthStart DayWithinYear_def InLeapYear_def)
qed

lemma MakeDate_shift: "MakeDate (Day t + n) (TimeWithinDay t) = t + n * msPerDay"
  by (simp add: MakeDate_def Day_def TimeWithinDay_def algebra_simps)

lemma shift_whole_days:
  "Day (t + n * msPerDay) = Day t + n \<and> TimeWithinDay (t + n * msPerDay) = TimeWithinDay t"
  by (simp add: Day_def TimeWithinDay_def msPerDay_def)

lemma calculcateDeletedAt_value:
  "calculcateDeletedAt tz r n h =
     (length h,
      h @ [case (case h ! r of None \<Rightarrow> None | Some t \<Rightarrow> TimeClip t) of
             None \<Rightarrow> None
           | Some t \<Rightarrow> TimeClip (UTC tz (LocalTime tz t + n * msPerDay))])"
  by (simp add: calculcateDeletedAt_def new_Date_def getTime_def getDate_def setDate_def Let_def
      MakeDay_same_month MakeDate_shift split: option.splits)

subsection \<open>The newest node of a map\<close>

lemma nodes_maxLastModified_value:
  "nodes_maxLastModified (id_map m) s =
     (if nodeTimes (nodesRepository s) m = [] then None
      else Some (Max (set (nodeTimes (nodesRepository s) m))), accessed s)"
  by (simp add: nodes_maxLastModified_def sql_max_Max nodeTimes_def)

text \<open>The batch insert never stores a row under an empty map identifier.\<close>

lemma addNodes_keeps_map_ids:
  assumes "\<forall>n\<in>set (nodesRepository s). nodeMapId n \<noteq> []"
    and "addNodes mapId nodes s = (r, s')"
  shows "\<forall>n\<in>set (nodesRepository s'). nodeMapId n \<noteq> []"
proof -
  let ?s0 = "if \<not> truthy mapId \<or> length nodes = 0
        then s\<lparr>unhandledRejections := Suc (unhandledRejections s)\<rparr> else s"
  have f: "foldl (reducer mapId) (Inr [], ?s0) nodes = (r, s')"
    using assms(2) by (simp add: addNodes_def)
  have rows0: "nodesRepository ?s0 = nodesRepository s"
    by simp
  from foldl_reducer_frame [OF f] obtain ins where
    "nodesRepository s' = nodesRepository s @ ins" "\<forall>x\<in>set ins. nodeMapId x = mapId"
    "ins \<noteq> [] \<longrightarrow> mapId \<noteq> []"
    unfolding rows0 by blast
  then show ?thesis
    using assms(1) by auto
qed

subsection \<open>The tree validator\<close>



subsection \<open>findMap\<close>

text \<open>
  Claim C8. For every validator, string and storage: a string the validator refuses makes
  \<open>findMap\<close> reject with the malformed-UUID error, the state (with its count of storage
  accesses) being exactly what it was. A string it accepts costs one storage access; it is
  valid input for the identifier column (as every string of the form the validator checks is),
  and \<open>findMap\<close> resolves with a stored map of that identifier, or with the empty result
  when no stored map has that identifier, identifiers being compared as the values the column
  reads. Were an accepted string not valid input for the column, the database would refuse
  the query.
\<close>

theorem findMap_validates_first:
  "(\<not> uuidValidate u \<longrightarrow> findMap uuidValidate u s = (Inl (MalformedUUIDError ''Invalid UUID''), s)) \<and>
   (uuidValidate u \<and> uuid_in s u \<noteq> None \<longrightarrow>
      (\<exists>r. findMap uuidValidate u s = (Inr r, accessed s) \<and>
           (case r of
              None \<Rightarrow> \<forall>m\<in>set (mapsRepository s). \<not> same_uuid s (id_map m) u
            | Some m \<Rightarrow> m \<in> set (mapsRepository s) \<and> same_uuid s (id_map m) u))) \<and>
   (uuidValidate u \<and> uuid_in s u = None \<longrightarrow>
      findMap uuidValidate u s = (Inl QueryFailedError, accessed s))"
  by (auto simp: findMap_def maps_findOne_def find_None_all same_uuid_def
      split: option.splits dest: find_Some_in)

theorem findMap_validates_first_witness:
  "\<not> uuid_regex_test ''not-a-uuid'' \<and>
   findMap uuid_regex_test ''not-a-uuid'' (ex_store []) =
     (Inl (MalformedUUIDError ''Invalid UUID''), ex_store []) \<and>
   uuid_regex_test ex_uuid \<and> uuid_in (ex_store []) ex_uuid \<noteq> None \<and>
   findMap uuid_regex_test ex_uuid (ex_store []) = (Inr (Some ex_map), accessed (ex_store [])) \<and>
   uuid_regex_test ex_uuid_upper \<and> uuid_in (ex_store []) ex_uuid_upper \<noteq> None \<and>
   findMap uuid_regex_test ex_uuid_upper (ex_store []) =
     (Inr (Some ex_map), accessed (ex_store []))"
  using findMap_validates_first [of uuid_regex_test "''not-a-uuid''" "ex_store []"]
        findMap_validates_first [of uuid_regex_test ex_uuid "ex_store []"]
        findMap_validates_first [of uuid_regex_test ex_uuid_upper "ex_store []"]
        ex_uuid_wellformed not_a_uuid_malformed ex_uuid_upper_wellformed ex_uuid_in_values
  by (auto simp: ex_store_def ex_map_def same_uuid_def split: option.splits)

subsection \<open>addNode\<close>

text \<open>
  Claim C9. \<open>addNode\<close> rejects a node that is detached and carries a non-empty parent
  reference; it rejects when the map identifier is empty, and when the node argument is
  missing. Whenever it rejects for one of these reasons, the state is exactly what it was; and
  whenever it rejects at all (the only other rejection is the database refusing the insert),
  the two tables are what they were: no record is inserted.
\<close>

theorem addNode_rejects:
  "(detached node \<and> truthy_opt (nodeParentId node) \<longrightarrow>
      addNode mapId (Some node) s = (Inl Rejected, s)) \<and>
   (mapId = [] \<longrightarrow> (\<exists>e. addNode mapId nodeArg s = (Inl e, s))) \<and>
   addNode mapId None s = (Inl TypeError, s) \<and>
   (\<forall>e. fst (addNode mapId nodeArg s) = Inl e \<longrightarrow>
        nodesRepository (snd (addNode mapId nodeArg s)) = nodesRepository s \<and>
        mapsRepository (snd (addNode mapId nodeArg s)) = mapsRepository s \<and>
        (e \<noteq> QueryFailedError \<longrightarrow> snd (addNode mapId nodeArg s) = s))"
  by (auto simp: addNode_def truthy_def nodes_findOne_def nodes_save_def accessed_def
      split: option.splits if_splits)

theorem addNode_rejects_witness:
  "detached ex_detached \<and> truthy_opt (nodeParentId ex_detached) \<and>
   addNode ex_uuid (Some ex_detached) (ex_store [ex_root]) = (Inl Rejected, ex_store [ex_root]) \<and>
   addNode [] (Some ex_root) (ex_store []) = (Inl Rejected, ex_store []) \<and>
   addNode ex_uuid None (ex_store []) = (Inl TypeError, ex_store [])"
  using addNode_rejects [of ex_detached ex_uuid "ex_store [ex_root]" "Some ex_detached"]
        addNode_rejects [of ex_root "[]" "ex_store []" "Some ex_root"]
        addNode_rejects [of ex_root ex_uuid "ex_store []" None]
  by (auto simp: ex_detached_def truthy_opt_def truthy_def addNode_def ex_root_def)




subsection \<open>addNodes\<close>

text \<open>
  Claim C10, as amended. The guard of \<open>addNodes\<close> creates a rejection and drops it, so it
  never makes the call reject. With an empty node list the call resolves with the empty list
  and the storage is as before, whatever the map identifier. With an empty map identifier and
  a list none of whose nodes is a root or detached, every node is skipped with a warning and
  the call resolves with the empty list. With an empty map identifier and a list holding a root
  or a detached node, the call rejects: that node passes the validator and \<open>addNode\<close>
  rejects it; nothing is inserted in this case either.
\<close>

theorem addNodes_guard_does_not_return:
  "addNodes mapId [] s = (Inr [], s\<lparr>unhandledRejections := Suc (unhandledRejections s)\<rparr>) \<and>
   ((\<forall>n\<in>set nodes. \<not> root n \<and> \<not> detached n) \<longrightarrow>
      addNodes [] nodes s =
        (Inr [], s\<lparr>logger := logger s @
                       map (\<lambda>n. ParentDoesNotExist (nodeParentId n) (id_node n) []) nodes,
                   unhandledRejections := Suc (unhandledRejections s)\<rparr>)) \<and>
   ((\<exists>n\<in>set nodes. root n \<or> detached n) \<longrightarrow>
      fst (addNodes [] nodes s) = Inl Rejected \<and>
      nodesRepository (snd (addNodes [] nodes s)) = nodesRepository s \<and>
      unhandledRejections (snd (addNodes [] nodes s)) = Suc (unhandledRejections s))"
proof (intro conjI impI)
  show "addNodes mapId [] s = (Inr [], s\<lparr>unhandledRejections := Suc (unhandledRejections s)\<rparr>)"
    by (simp add: addNodes_def)
next
  assume "\<forall>n\<in>set nodes. \<not> root n \<and> \<not> detached n"
  then show "addNodes [] nodes s =
        (Inr [], s\<lparr>logger := logger s @
                       map (\<lambda>n. ParentDoesNotExist (nodeParentId n) (id_node n) []) nodes,
                   unhandledRejections := Suc (unhandledRejections s)\<rparr>)"
    by (simp add: addNodes_def truthy_def foldl_reducer_emptyMap_skip)
next
  assume a: "\<exists>n\<in>set nodes. root n \<or> detached n"
  let ?s0 = "s\<lparr>unhandledRejections := Suc (unhandledRejections s)\<rparr>"
  have eq: "addNodes [] nodes s = foldl (reducer []) (Inr [], ?s0) nodes"
    by (simp add: addNodes_def truthy_def)
  show "fst (addNodes [] nodes s) = Inl Rejected"
    using a by (simp add: eq foldl_reducer_emptyMap_reject)
  obtain r s' where f: "foldl (reducer []) (Inr [], ?s0) nodes = (r, s')"
    by (metis surj_pair)
  from foldl_reducer_frame [OF f]
  show "nodesRepository (snd (addNodes [] nodes s)) = nodesRepository s"
    by (auto simp: eq f)
  from foldl_reducer_frame [OF f]
  show "unhandledRejections (snd (addNodes [] nodes s)) = Suc (unhandledRejections s)"
    by (auto simp: eq f)
qed

theorem addNodes_guard_does_not_return_witness:
  "addNodes ex_uuid [] (ex_store [ex_root]) =
     (Inr [], (ex_store [ex_root])\<lparr>unhandledRejections := 1\<rparr>) \<and>
   addNodes [] [ex_child] (ex_store []) =
     (Inr [], (ex_store [])\<lparr>logger := [ParentDoesNotExist (Some ''P'') ''C'' []],
                            unhandledRejections := 1\<rparr>) \<and>
   fst (addNodes [] [ex_child, ex_root] (ex_store [])) = Inl Rejected"
  using addNodes_guard_does_not_return [of ex_uuid "ex_store [ex_root]" "[ex_child]"]
        addNodes_guard_does_not_return [of "[]" "ex_store []" "[ex_child]"]
        addNodes_guard_does_not_return [of "[]" "ex_store []" "[ex_child, ex_root]"]
  by (simp add: ex_store_def ex_child_def ex_root_def)

theorem addNodes_guard_does_not_return_counterexample:
  "addNodes [] [ex_root] (ex_store []) = (Inl Rejected, (ex_store [])\<lparr>unhandledRejections := 1\<rparr>)"
  by (simp add: addNodes_def reducer_def validatesNodeParentForNode_def addNode_def truthy_def
      truthy_opt_def ex_root_def ex_store_def)




subsection \<open>updateMap\<close>

text \<open>
  Claim C3, as amended. For every client map, \<open>updateMap\<close> first deletes every node owned
  by the map; when the identifier is not valid input for the identifier column the database
  refuses already this statement and \<open>updateMap\<close> rejects, nothing being changed. Otherwise
  it runs the batch insert on the submitted nodes, and afterwards, in every case, the nodes of
  other maps are as before and the nodes of this map are exactly the rows the batch insert
  appended, so that \<open>findNodes\<close> resolves with those rows and no others, in ascending
  order of their order number. When the batch insert rejects, \<open>updateMap\<close> rejects with
  the same reason. When it resolves, the rows it appended are the nodes it returned, and
  \<open>updateMap\<close> ends as \<open>findMap\<close> does: it resolves with the stored map of that
  identifier (or with the empty result when there is none) if the validator accepts the
  identifier, and rejects with the malformed-UUID error if it does not.
\<close>

theorem updateMap_rebuilds:
  "(uuid_in s (uuid cm) = None \<longrightarrow> updateMap v f cm s = (Inl QueryFailedError, accessed s)) \<and>
   (\<forall>w. uuid_in s (uuid cm) = Some w \<longrightarrow>
     (\<exists>ins.
        nodesRepository (snd (updateMap v f cm s)) =
          filter (\<lambda>n. uuid_in s (nodeMapId n) \<noteq> Some w) (nodesRepository s) @ ins \<and>
        (\<forall>n\<in>set ins. nodeMapId n = uuid cm) \<and>
        mapsRepository (snd (updateMap v f cm s)) = mapsRepository s \<and>
        fst (findNodes (uuid cm) (snd (updateMap v f cm s))) = Inr (sort_key orderNumber ins) \<and>
        sorted (map orderNumber (sort_key orderNumber ins)) \<and>
        mset (sort_key orderNumber ins) = mset ins \<and>
        (case fst (addNodesFromClient f (uuid cm) (data cm) (snd (nodes_delete (uuid cm) s))) of
           Inl e \<Rightarrow> fst (updateMap v f cm s) = Inl e
         | Inr created \<Rightarrow>
             set created = set ins \<and>
             fst (updateMap v f cm s) =
               (if v (uuid cm)
                then Inr (find (\<lambda>m. uuid_in s (id_map m) = Some w) (mapsRepository s))
                else Inl (MalformedUUIDError ''Invalid UUID'')))))"
proof (intro conjI allI impI)
  assume "uuid_in s (uuid cm) = None"
  then show "updateMap v f cm s = (Inl QueryFailedError, accessed s)"
    by (simp add: updateMap_def nodes_delete_def)
next
  fix w
  assume w: "uuid_in s (uuid cm) = Some w"
  let ?u = "uuid cm"
  let ?kept = "filter (\<lambda>n. uuid_in s (nodeMapId n) \<noteq> Some w) (nodesRepository s)"
  let ?s1 = "accessed (s\<lparr>nodesRepository := ?kept\<rparr>)"
  have del: "nodes_delete ?u s = (Inr (), ?s1)"
    using w by (simp add: nodes_delete_def)
  have s1: "nodesRepository ?s1 = ?kept" "mapsRepository ?s1 = mapsRepository s"
      "uuid_in ?s1 = uuid_in s"
    by (simp_all add: accessed_def)
  obtain r s2 where b: "addNodesFromClient f ?u (data cm) ?s1 = (r, s2)"
    by (metis surj_pair)
  then have "addNodes ?u (map (\<lambda>x. f x ?u) (data cm)) ?s1 = (r, s2)"
    by (simp add: addNodesFromClient_def)
  from addNodes_frame [OF this] obtain ins where
      rows: "nodesRepository s2 = ?kept @ ins" and tag: "\<forall>x\<in>set ins. nodeMapId x = ?u"
      and maps: "mapsRepository s2 = mapsRepository s" and ui: "uuid_in s2 = uuid_in s"
      and res: "\<forall>res. r = Inr res \<longrightarrow> set ins \<subseteq> set res \<and>
           (\<forall>x\<in>set res. x \<in> set (nodesRepository s2) \<and> nodeMapId x = ?u)"
    unfolding s1 by blast
  have um: "updateMap v f cm s = (case r of Inl e \<Rightarrow> (Inl e, s2) | Inr created \<Rightarrow> findMap v ?u s2)"
    using b del by (simp add: updateMap_def split: sum.splits)
  have rows': "nodesRepository (snd (updateMap v f cm s)) = ?kept @ ins"
    using rows by (simp add: um findMap_frame split: sum.splits)
  have maps': "mapsRepository (snd (updateMap v f cm s)) = mapsRepository s"
    using maps by (simp add: um findMap_frame split: sum.splits)
  have other: "\<forall>n\<in>set ?kept. nodeMapId n \<noteq> ?u"
    using w by auto
  have "filter (\<lambda>n. nodeMapId n = ?u) (?kept @ ins) = ins"
    using tag other by (auto simp: filter_id_conv filter_empty_conv)
  then have fn: "fst (findNodes ?u (snd (updateMap v f cm s))) = Inr (sort_key orderNumber ins)"
    by (simp add: findNodes_def rows')
  have out: "case r of
        Inl e \<Rightarrow> fst (updateMap v f cm s) = Inl e
      | Inr created \<Rightarrow>
          set created = set ins \<and>
          fst (updateMap v f cm s) =
            (if v ?u then Inr (find (\<lambda>m. uuid_in s (id_map m) = Some w) (mapsRepository s))
             else Inl (MalformedUUIDError ''Invalid UUID''))"
  proof (cases r)
    case (Inl e)
    then show ?thesis by (simp add: um)
  next
    case (Inr created)
    have "set ins \<subseteq> set created"
      and "\<forall>x\<in>set created. x \<in> set (nodesRepository s2) \<and> nodeMapId x = ?u"
      using res Inr by auto
    then have "set created = set ins"
      unfolding rows using other by auto
    then show ?thesis
      using Inr maps ui w by (simp add: um findMap_frame)
  qed
  show "\<exists>ins.
        nodesRepository (snd (updateMap v f cm s)) = ?kept @ ins \<and>
        (\<forall>n\<in>set ins. nodeMapId n = uuid cm) \<and>
        mapsRepository (snd (updateMap v f cm s)) = mapsRepository s \<and>
        fst (findNodes (uuid cm) (snd (updateMap v f cm s))) = Inr (sort_key orderNumber ins) \<and>
        sorted (map orderNumber (sort_key orderNumber ins)) \<and>
        mset (sort_key orderNumber ins) = mset ins \<and>
        (case fst (addNodesFromClient f (uuid cm) (data cm) (snd (nodes_delete (uuid cm) s))) of
           Inl e \<Rightarrow> fst (updateMap v f cm s) = Inl e
         | Inr created \<Rightarrow>
             set created = set ins \<and>
             fst (updateMap v f cm s) =
               (if v (uuid cm)
                then Inr (find (\<lambda>m. uuid_in s (id_map m) = Some w) (mapsRepository s))
                else Inl (MalformedUUIDError ''Invalid UUID'')))"
    using rows' tag maps' fn out b del by (intro exI [of _ ins]) (simp add: sorted_sort_key)
qed

theorem updateMap_rebuilds_witness:
  "uuid_in (ex_store [ex_root, ex_child]) ex_uuid = Some ex_uuid \<and>
   fst (updateMap uuid_regex_test ex_mapping \<lparr>uuid = ex_uuid, data = [ex_other]\<rparr>
          (ex_store [ex_root, ex_child])) = Inr (Some ex_map) \<and>
   fst (findNodes ex_uuid
          (snd (updateMap uuid_regex_test ex_mapping \<lparr>uuid = ex_uuid, data = [ex_other]\<rparr>
                  (ex_store [ex_root, ex_child])))) = Inr [ex_other\<lparr>nodeMapId := ex_uuid\<rparr>] \<and>
   uuid_in (ex_store [ex_root]) ''not-a-uuid'' = None \<and>
   updateMap uuid_regex_test ex_mapping \<lparr>uuid = ''not-a-uuid'', data = [ex_other]\<rparr>
       (ex_store [ex_root]) = (Inl QueryFailedError, accessed (ex_store [ex_root]))"
  using updateMap_rebuilds [of "ex_store [ex_root, ex_child]"
          "\<lparr>uuid = ex_uuid, data = [ex_other]\<rparr>" uuid_regex_test ex_mapping]
        updateMap_rebuilds [of "ex_store [ex_root]"
          "\<lparr>uuid = ''not-a-uuid'', data = [ex_other]\<rparr>" uuid_regex_test ex_mapping]
        ex_uuid_wellformed ex_uuid_nonempty
  by (simp add: updateMap_def addNodesFromClient_def nodes_delete_def findMap_def maps_findOne_def
      findNodes_def ex_mapping_def ex_store_def ex_map_def ex_root_def ex_child_def ex_other_def
      addNodes_def reducer_def
      validatesNodeParentForNode_def existsNode_def nodes_exist_def addNode_def nodes_findOne_def
      nodes_save_def same_key_def accessed_def truthy_def truthy_opt_def
      mapStored_def same_uuid_def ex_uuid_in_values)

theorem updateMap_rebuilds_counterexample:
  "updateMap uuid_regex_test ex_mapping \<lparr>uuid = ex_uuid, data = [ex_detached]\<rparr>
       (ex_store [ex_root, ex_child])
     = (Inl Rejected, (ex_store [])\<lparr>dbAccesses := 1\<rparr>) \<and>
   fst (updateMap uuid_regex_test ex_mapping \<lparr>uuid = ''not-a-uuid'', data = []\<rparr> (ex_store []))
     = Inl QueryFailedError"
  using ex_uuid_nonempty
  by (simp add: updateMap_def addNodesFromClient_def nodes_delete_def findMap_def maps_findOne_def
      ex_mapping_def ex_store_def ex_map_def ex_root_def ex_child_def ex_detached_def
      addNodes_def reducer_def
      validatesNodeParentForNode_def existsNode_def nodes_exist_def addNode_def nodes_findOne_def
      nodes_save_def same_key_def accessed_def truthy_def truthy_opt_def
      mapStored_def same_uuid_def ex_uuid_in_values)

subsection \<open>deleteOutdatedMaps\<close>

text \<open>
  Claim C1. In a storage whose maps have pairwise distinct identifiers (the primary key), for
  every number of days, every current time and every time zone of the database session:
  \<open>deleteOutdatedMaps\<close> resolves with the number of outdated maps, and the maps stored
  afterwards are exactly the maps that are not outdated, where a map is outdated when the
  newest modification time of its nodes plus the days lies before the current time or, for a
  map without nodes, when its own last-modified time plus the days does; the days are added
  as the database adds them, as calendar days of the session's zone. When no map is outdated
  it resolves with 0 after the one query. In every zone whose offsets differ by less than a
  day, under 30 days a map whose newest node was modified 31 days ago is deleted, one whose
  newest node was modified 29 days ago is kept, and a map without nodes that was itself
  modified 31 days ago is deleted.
\<close>

theorem deleteOutdatedMaps_selects:
  assumes "distinct (map id_map (mapsRepository s))"
  shows "fst (deleteOutdatedMaps afterDays today s) =
       Inr (length (filter (isOutdated_spec (sessionTimeZone s) afterDays today (nodesRepository s)) (mapsRepository s))) \<and>
     mapsRepository (snd (deleteOutdatedMaps afterDays today s)) =
       filter (\<lambda>m. \<not> isOutdated_spec (sessionTimeZone s) afterDays today (nodesRepository s) m) (mapsRepository s) \<and>
     ((\<forall>m\<in>set (mapsRepository s). \<not> isOutdated_spec (sessionTimeZone s) afterDays today (nodesRepository s) m) \<longrightarrow>
        deleteOutdatedMaps afterDays today s = (Inr 0, accessed s)) \<and>
     ((\<forall>x y. \<bar>offsetOfUTC (sessionTimeZone s) x - offsetOfLocal (sessionTimeZone s) y\<bar> < msPerDay) \<longrightarrow>
      (\<forall>m\<in>set (mapsRepository s).
        (nodeTimes (nodesRepository s) m \<noteq> [] \<and>
         Max (set (nodeTimes (nodesRepository s) m)) = today - 31 * msPerDay \<longrightarrow>
           m \<notin> set (mapsRepository (snd (deleteOutdatedMaps 30 today s)))) \<and>
        (nodeTimes (nodesRepository s) m \<noteq> [] \<and>
         Max (set (nodeTimes (nodesRepository s) m)) = today - 29 * msPerDay \<longrightarrow>
           m \<in> set (mapsRepository (snd (deleteOutdatedMaps 30 today s)))) \<and>
        (nodeTimes (nodesRepository s) m = [] \<and> lastModified_map m = today - 31 * msPerDay \<longrightarrow>
           m \<notin> set (mapsRepository (snd (deleteOutdatedMaps 30 today s))))))"
proof -
  note v = deleteOutdatedMaps_value [OF assms]
  have keep: "\<And>d. mapsRepository (snd (deleteOutdatedMaps d today s)) =
       filter (\<lambda>m. \<not> isOutdated_spec (sessionTimeZone s) d today (nodesRepository s) m) (mapsRepository s)"
  proof -
    fix d
    show "mapsRepository (snd (deleteOutdatedMaps d today s)) =
       filter (\<lambda>m. \<not> isOutdated_spec (sessionTimeZone s) d today (nodesRepository s) m) (mapsRepository s)"
    proof (cases "filter (isOutdated_spec (sessionTimeZone s) d today (nodesRepository s)) (mapsRepository s) = []")
      case True
      then have "\<forall>m\<in>set (mapsRepository s). \<not> isOutdated_spec (sessionTimeZone s) d today (nodesRepository s) m"
        by (simp add: filter_empty_conv)
      then have "filter (\<lambda>m. \<not> isOutdated_spec (sessionTimeZone s) d today (nodesRepository s) m) (mapsRepository s)
          = mapsRepository s"
        by (simp add: filter_id_conv)
      then show ?thesis
        using True by (simp add: v accessed_def)
    next
      case False
      then show ?thesis
        by (simp add: v accessed_def)
    qed
  qed
  have count: "fst (deleteOutdatedMaps afterDays today s) =
       Inr (length (filter (isOutdated_spec (sessionTimeZone s) afterDays today (nodesRepository s)) (mapsRepository s)))"
    by (simp add: v)
  have none: "(\<forall>m\<in>set (mapsRepository s). \<not> isOutdated_spec (sessionTimeZone s) afterDays today (nodesRepository s) m) \<longrightarrow>
        deleteOutdatedMaps afterDays today s = (Inr 0, accessed s)"
    by (simp add: v filter_empty_conv)
  have ex: "(\<forall>x y. \<bar>offsetOfUTC (sessionTimeZone s) x - offsetOfLocal (sessionTimeZone s) y\<bar> < msPerDay) \<longrightarrow>
      (\<forall>m\<in>set (mapsRepository s).
        (nodeTimes (nodesRepository s) m \<noteq> [] \<and>
         Max (set (nodeTimes (nodesRepository s) m)) = today - 31 * msPerDay \<longrightarrow>
           m \<notin> set (mapsRepository (snd (deleteOutdatedMaps 30 today s)))) \<and>
        (nodeTimes (nodesRepository s) m \<noteq> [] \<and>
         Max (set (nodeTimes (nodesRepository s) m)) = today - 29 * msPerDay \<longrightarrow>
           m \<in> set (mapsRepository (snd (deleteOutdatedMaps 30 today s)))) \<and>
        (nodeTimes (nodesRepository s) m = [] \<and> lastModified_map m = today - 31 * msPerDay \<longrightarrow>
           m \<notin> set (mapsRepository (snd (deleteOutdatedMaps 30 today s)))))"
  proof (intro impI)
    assume z: "\<forall>x y. \<bar>offsetOfUTC (sessionTimeZone s) x - offsetOfLocal (sessionTimeZone s) y\<bar> < msPerDay"
    have lt: "plusCalendarDays (sessionTimeZone s) (today - 31 * msPerDay) 30 < today"
      using plusCalendarDays_bounds [OF z, of "today - 31 * msPerDay" 30] by simp
    have ge: "\<not> plusCalendarDays (sessionTimeZone s) (today - 29 * msPerDay) 30 < today"
      using plusCalendarDays_bounds [OF z, of "today - 29 * msPerDay" 30] by simp
    show "\<forall>m\<in>set (mapsRepository s).
        (nodeTimes (nodesRepository s) m \<noteq> [] \<and>
         Max (set (nodeTimes (nodesRepository s) m)) = today - 31 * msPerDay \<longrightarrow>
           m \<notin> set (mapsRepository (snd (deleteOutdatedMaps 30 today s)))) \<and>
        (nodeTimes (nodesRepository s) m \<noteq> [] \<and>
         Max (set (nodeTimes (nodesRepository s) m)) = today - 29 * msPerDay \<longrightarrow>
           m \<in> set (mapsRepository (snd (deleteOutdatedMaps 30 today s)))) \<and>
        (nodeTimes (nodesRepository s) m = [] \<and> lastModified_map m = today - 31 * msPerDay \<longrightarrow>
           m \<notin> set (mapsRepository (snd (deleteOutdatedMaps 30 today s))))"
      using lt ge by (simp add: keep isOutdated_spec_def)
  qed
  show ?thesis
    using count keep [of afterDays] none ex by blast
qed

theorem deleteOutdatedMaps_selects_witness:
  "distinct (map id_map (mapsRepository ex_sweep_store)) \<and>
   fst (deleteOutdatedMaps 30 (100 * msPerDay) ex_sweep_store) = Inr 2 \<and>
   map id_map (mapsRepository (snd (deleteOutdatedMaps 30 (100 * msPerDay) ex_sweep_store))) =
     [''m2'', ''m4'']"
proof -
  have d: "distinct (map id_map (mapsRepository ex_sweep_store))"
    by (simp add: ex_sweep_store_def)
  have o: "map (isOutdated_spec (sessionTimeZone ex_sweep_store) 30 (100 * msPerDay) (nodesRepository ex_sweep_store))
             (mapsRepository ex_sweep_store) = [True, False, True, False]"
    by (simp add: ex_sweep_store_def isOutdated_spec_def nodeTimes_def ex_node_at_def msPerDay_def
        plusCalendarDays_def UTC_def LocalTime_def tz_utc_def)
  show ?thesis
    using deleteOutdatedMaps_selects [OF d, of 30 "100 * msPerDay"] d o
    by (simp add: ex_sweep_store_def)
qed

subsection \<open>calculcateDeletedAt\<close>

text \<open>
  Claim C6, as amended. For every time zone, every valid input date and every whole number of
  days, \<open>calculcateDeletedAt\<close> returns a new Date object and leaves every object that
  existed before, the input among them, as it was. The new date is the instant that the time
  zone assigns to the local time of the input moved by that many days, provided this instant
  is at most \<open>8.64 * 10^15\<close> milliseconds away from the epoch; beyond that the date returned
  is invalid. Whenever the zone reads the instant back as that local time (it does unless a
  change of the clocks skips the local time), the date returned is, in local time, that many
  calendar days after the input at the same time of day. In a zone with a fixed offset it is
  the input plus that many times 24 hours, exactly.
\<close>

theorem calculcateDeletedAt_adds_days:
  assumes "r < length h" and "h ! r = Some t" and "\<bar>t\<bar> \<le> 8640000000000000"
  shows "calculcateDeletedAt tz r n h =
           (length h, h @ [TimeClip (UTC tz (LocalTime tz t + n * msPerDay))]) \<and>
         (LocalTime tz (UTC tz (LocalTime tz t + n * msPerDay)) = LocalTime tz t + n * msPerDay \<and>
          \<bar>UTC tz (LocalTime tz t + n * msPerDay)\<bar> \<le> 8640000000000000 \<longrightarrow>
            (\<exists>u. getTime (snd (calculcateDeletedAt tz r n h))
                        (fst (calculcateDeletedAt tz r n h)) = Some u \<and>
                 Day (LocalTime tz u) = Day (LocalTime tz t) + n \<and>
                 TimeWithinDay (LocalTime tz u) = TimeWithinDay (LocalTime tz t))) \<and>
         fst (calculcateDeletedAt tz r n h) \<noteq> r \<and>
         take (length h) (snd (calculcateDeletedAt tz r n h)) = h \<and>
         getTime (snd (calculcateDeletedAt tz r n h)) r = Some t \<and>
         ((\<forall>x. offsetOfUTC tz x = c) \<and> (\<forall>x. offsetOfLocal tz x = c) \<and>
          \<bar>t + n * msPerDay\<bar> \<le> 8640000000000000 \<longrightarrow>
            getTime (snd (calculcateDeletedAt tz r n h)) (fst (calculcateDeletedAt tz r n h)) =
              Some (t + n * msPerDay)) \<and>
         (\<bar>UTC tz (LocalTime tz t + n * msPerDay)\<bar> > 8640000000000000 \<longrightarrow>
            getTime (snd (calculcateDeletedAt tz r n h)) (fst (calculcateDeletedAt tz r n h)) = None)"
proof -
  have v: "calculcateDeletedAt tz r n h =
           (length h, h @ [TimeClip (UTC tz (LocalTime tz t + n * msPerDay))])"
    using assms(2,3) by (simp add: calculcateDeletedAt_value TimeClip_def)
  have old: "getTime (snd (calculcateDeletedAt tz r n h)) r = Some t"
    using assms(1,2) by (simp add: v getTime_def nth_append)
  have fixed: "(\<forall>x. offsetOfUTC tz x = c) \<and> (\<forall>x. offsetOfLocal tz x = c) \<and>
          \<bar>t + n * msPerDay\<bar> \<le> 8640000000000000 \<longrightarrow>
            getTime (snd (calculcateDeletedAt tz r n h)) (fst (calculcateDeletedAt tz r n h)) =
              Some (t + n * msPerDay)"
    by (simp add: v getTime_def UTC_def LocalTime_def TimeClip_def)
  have over: "\<bar>UTC tz (LocalTime tz t + n * msPerDay)\<bar> > 8640000000000000 \<longrightarrow>
            getTime (snd (calculcateDeletedAt tz r n h)) (fst (calculcateDeletedAt tz r n h)) = None"
    by (simp add: v getTime_def TimeClip_def)
  have loc: "LocalTime tz (UTC tz (LocalTime tz t + n * msPerDay)) = LocalTime tz t + n * msPerDay \<and>
          \<bar>UTC tz (LocalTime tz t + n * msPerDay)\<bar> \<le> 8640000000000000 \<longrightarrow>
            (\<exists>u. getTime (snd (calculcateDeletedAt tz r n h))
                        (fst (calculcateDeletedAt tz r n h)) = Some u \<and>
                 Day (LocalTime tz u) = Day (LocalTime tz t) + n \<and>
                 TimeWithinDay (LocalTime tz u) = TimeWithinDay (LocalTime tz t))"
    using shift_whole_days [of "LocalTime tz t" n]
    by (simp add: v getTime_def TimeClip_def)
  show ?thesis
    using v old fixed over loc assms(1) by simp
qed

theorem calculcateDeletedAt_adds_days_witness:
  "(0::nat) < length [Some (1709164800000::int)] \<and>
   calculcateDeletedAt tz_utc 0 30 [Some 1709164800000] =
     (1, [Some 1709164800000, Some 1711756800000])"
  using calculcateDeletedAt_adds_days [of 0 "[Some 1709164800000]" 1709164800000 tz_utc 30 0]
  by (simp add: tz_utc_def UTC_def LocalTime_def TimeClip_def msPerDay_def)

theorem calculcateDeletedAt_adds_days_counterexample:
  "getTime (snd (calculcateDeletedAt tz_utc 0 1 [Some 8640000000000000]))
     (fst (calculcateDeletedAt tz_utc 0 1 [Some 8640000000000000])) = None \<and>
   getTime (snd (calculcateDeletedAt tz_utc 0 1 [Some 8640000000000000]))
     (fst (calculcateDeletedAt tz_utc 0 1 [Some 8640000000000000]))
     \<noteq> Some (8640000000000000 + 1 * msPerDay)"
  by (simp add: calculcateDeletedAt_value getTime_def tz_utc_def UTC_def LocalTime_def
      TimeClip_def msPerDay_def)

subsection \<open>getDeletedAt and exportMapToClient\<close>

text \<open>
  Claim C7. \<open>getDeletedAt\<close> rejects when the map argument is missing. For a map it asks
  the storage once, makes a Date of the newest last-modified time among the nodes of the map,
  or of the map's own last-modified time when the map has no nodes, and resolves with what
  \<open>calculcateDeletedAt\<close> returns for that Date. \<open>exportMapToClient\<close> of a stored map
  without nodes hands the mapping the deadline computed from the map's own last-modified time.
\<close>

theorem getDeletedAt_newest_or_own:
  "getDeletedAt tz None afterDays s h = (Inl Rejected, s, h) \<and>
   getDeletedAt tz (Some m) afterDays s h =
     (case calculcateDeletedAt tz (length h) afterDays
             (h @ [TimeClip (if nodeTimes (nodesRepository s) m = [] then lastModified_map m
                             else Max (set (nodeTimes (nodesRepository s) m)))]) of
        (r, h2) \<Rightarrow> (Inr r, accessed s, h2)) \<and>
   (uuidValidate u \<and> uuid_in s u = Some w \<and>
    find (\<lambda>x. uuid_in s (id_map x) = Some w) (mapsRepository s) = Some m \<and>
    nodeTimes (nodesRepository s) m = [] \<longrightarrow>
      fst (exportMapToClient uuidValidate days mapMmpMapToClient tz u s h) =
        Inr (mapMmpMapToClient m []
               (case TimeClip (lastModified_map m) of
                  None \<Rightarrow> None
                | Some t \<Rightarrow> TimeClip (UTC tz (LocalTime tz t + days * msPerDay)))
               days))"
proof -
  have a: "getDeletedAt tz None afterDays s h = (Inl Rejected, s, h)"
    by (simp add: getDeletedAt_def)
  have b: "\<And>d s'. getDeletedAt tz (Some m) d s' h =
     (case calculcateDeletedAt tz (length h) d
             (h @ [TimeClip (if nodeTimes (nodesRepository s') m = [] then lastModified_map m
                             else Max (set (nodeTimes (nodesRepository s') m)))]) of
        (r, h2) \<Rightarrow> (Inr r, accessed s', h2))"
    by (simp add: getDeletedAt_def nodes_maxLastModified_value new_Date_def)
  have c: "uuidValidate u \<and> uuid_in s u = Some w \<and>
    find (\<lambda>x. uuid_in s (id_map x) = Some w) (mapsRepository s) = Some m \<and>
    nodeTimes (nodesRepository s) m = [] \<longrightarrow>
      fst (exportMapToClient uuidValidate days mapMmpMapToClient tz u s h) =
        Inr (mapMmpMapToClient m []
               (case TimeClip (lastModified_map m) of
                  None \<Rightarrow> None
                | Some t \<Rightarrow> TimeClip (UTC tz (LocalTime tz t + days * msPerDay)))
               days)"
  proof (intro impI)
    assume h: "uuidValidate u \<and> uuid_in s u = Some w \<and>
    find (\<lambda>x. uuid_in s (id_map x) = Some w) (mapsRepository s) = Some m \<and>
      nodeTimes (nodesRepository s) m = []"
    then have nn: "filter (\<lambda>n. nodeMapId n = id_map m) (nodesRepository s) = []"
      by (simp add: nodeTimes_def)
    have fm: "findMap uuidValidate u s = (Inr (Some m), accessed s)"
      using h by (simp add: findMap_def maps_findOne_def)
    have fn: "findNodes (id_map m) (accessed s) = (Inr [], accessed (accessed s))"
      using nn by (simp add: findNodes_def accessed_def)
    have nt: "nodeTimes (nodesRepository (accessed (accessed s))) m = []"
      using h by (simp add: accessed_def)
    show "fst (exportMapToClient uuidValidate days mapMmpMapToClient tz u s h) =
        Inr (mapMmpMapToClient m []
               (case TimeClip (lastModified_map m) of
                  None \<Rightarrow> None
                | Some t \<Rightarrow> TimeClip (UTC tz (LocalTime tz t + days * msPerDay)))
               days)"
      by (auto simp: exportMapToClient_def fm fn b nt calculcateDeletedAt_value getTime_def
          nth_append TimeClip_def split: option.splits if_splits)
  qed
  show ?thesis
    using a b [of afterDays s] c by blast
qed


theorem getDeletedAt_newest_or_own_witness:
  "getDeletedAt tz_utc None 30 (ex_store []) [] = (Inl Rejected, ex_store [], []) \<and>
   getDeletedAt tz_utc (Some ex_map) 30 (ex_store [ex_root, ex_child]) [] =
     (Inr 1, accessed (ex_store [ex_root, ex_child]), [Some 3000, Some 2592003000]) \<and>
   getDeletedAt tz_utc (Some ex_map) 30 (ex_store []) [] =
     (Inr 1, accessed (ex_store []), [Some 1000, Some 2592001000]) \<and>
   uuid_regex_test ex_uuid \<and>
   uuid_in (ex_store []) ex_uuid = Some ex_uuid \<and>
   find (\<lambda>x. uuid_in (ex_store []) (id_map x) = Some ex_uuid) (mapsRepository (ex_store []))
     = Some ex_map \<and>
   nodeTimes (nodesRepository (ex_store [])) ex_map = [] \<and>
   fst (exportMapToClient uuid_regex_test 30 (\<lambda>m ns d days. (ns, d)) tz_utc ex_uuid (ex_store []) [])
     = Inr ([], Some 2592001000)"
  using getDeletedAt_newest_or_own [where tz = tz_utc and afterDays = 30
          and s = "ex_store [ex_root, ex_child]" and h = "[]" and m = ex_map
          and uuidValidate = uuid_regex_test and u = ex_uuid and w = ex_uuid and days = 30
          and mapMmpMapToClient = "\<lambda>m ns d days. (ns, d)"]
        getDeletedAt_newest_or_own [where tz = tz_utc and afterDays = 30
          and s = "ex_store []" and h = "[]" and m = ex_map
          and uuidValidate = uuid_regex_test and u = ex_uuid and w = ex_uuid and days = 30
          and mapMmpMapToClient = "\<lambda>m ns d days. (ns, d)"]
        ex_uuid_wellformed
  by (simp add: ex_store_def ex_map_def ex_root_def ex_child_def nodeTimes_def ex_uuid_in_values
      calculcateDeletedAt_value tz_utc_def UTC_def LocalTime_def TimeClip_def msPerDay_def
      accessed_def)

end
